theory Spec2Isabelle
  imports Main "HOL-Library.Word"
begin

section \<open>Exceptions as values\<close>

text \<open>
  A JavaScript \<^verbatim>\<open>Error\<close> is represented by its message. A computation that may throw
  returns \<open>error + 'a\<close>, with \<open>Inl\<close> for the thrown error.
\<close>

type_synonym error = string

definition digit_char :: "nat \<Rightarrow> char" where
  "digit_char n = ''0123456789'' ! (n mod 10)"

text \<open>Decimal rendering of a number inside a template string.\<close>

fun show_nat :: "nat \<Rightarrow> string" where
  "show_nat n = (if n < 10 then [digit_char n] else show_nat (n div 10) @ [digit_char (n mod 10)])"

declare show_nat.simps [simp del]

section \<open>Generation client (graph.ts, generateContent)\<close>

text \<open>
  What one \<^verbatim>\<open>fetch\<close> of the generation service gives back. \<open>Inl e\<close>: the fetch itself
  throws. Otherwise a response with its HTTP status, its raw text, and what
  \<^verbatim>\<open>response.json()\<close> yields: either it throws, or it has a (possibly empty or missing)
  candidate list; for each candidate, evaluating \<^verbatim>\<open>content.parts[0].text\<close> either
  throws or gives the text. (A text that is not a string is returned as it is and makes
  \<open>cleanJsonString\<close> throw in the caller, inside the caller's \<^verbatim>\<open>try\<close>: for the
  nodes it counts as output that does not parse.)
\<close>

datatype payload = InvalidJson error | Candidates "(error + string) list"

record response =
  status :: nat
  raw_text :: string
  payload :: payload

text \<open>\<^verbatim>\<open>response.ok\<close> of the fetch standard: a status in the range 200 to 299.\<close>

definition ok :: "response \<Rightarrow> bool" where
  "ok r = (200 \<le> status r \<and> status r \<le> 299)"

datatype gen_event = Sleep nat | Fetch

text \<open>The three ways the body of the \<^verbatim>\<open>try\<close> block ends.\<close>

datatype attempt_result = RateLimited | Returned string | Thrown error

definition try_body :: "error + response \<Rightarrow> attempt_result" where
  "try_body f =
     (case f of
        Inl e \<Rightarrow> Thrown e
      | Inr r \<Rightarrow>
          if status r = 429 then RateLimited
          else if \<not> ok r then Thrown (''API Error '' @ show_nat (status r) @ '': '' @ raw_text r)
          else (case payload r of
                  InvalidJson e \<Rightarrow> Thrown e
                | Candidates [] \<Rightarrow> Thrown ''No candidates returned''
                | Candidates (Inl e # _) \<Rightarrow> Thrown e
                | Candidates (Inr t # _) \<Rightarrow> Returned t))"

text \<open>
  The \<^verbatim>\<open>for (let attempt = 0; attempt < retries; attempt++)\<close> loop. The oracle \<open>fetch\<close>
  gives the outcome of the fetch made in each pass. \<^verbatim>\<open>continue\<close> runs the loop's
  increment like any other end of the body.
\<close>

function attempts :: "(nat \<Rightarrow> error + response) \<Rightarrow> nat \<Rightarrow> nat \<Rightarrow> (error + string) \<times> gen_event list" where
  "attempts fetch retries attempt =
     (if attempt < retries then
        (case try_body (fetch attempt) of
           RateLimited \<Rightarrow>
             (let (r, tr) = attempts fetch retries (attempt + 1) in (r, Fetch # Sleep 10000 # tr))
         | Returned t \<Rightarrow> (Inr t, [Fetch])
         | Thrown e \<Rightarrow>
             if attempt = retries - 1 then (Inl e, [Fetch])
             else (let (r, tr) = attempts fetch retries (attempt + 1) in (r, Fetch # Sleep 2000 # tr)))
      else (Inl ''Failed to generate content'', []))"
  by pat_completeness auto
termination
  by (relation "measure (\<lambda>(fetch, retries, attempt). retries - attempt)") auto

declare attempts.simps [simp del]

definition generateContent :: "(nat \<Rightarrow> error + response) \<Rightarrow> nat \<Rightarrow> (error + string) \<times> gen_event list" where
  "generateContent fetch retries =
     (let (r, tr) = attempts fetch retries 0 in (r, Sleep 4000 # tr))"


text \<open>
  An oracle built from a finite script of fetch outcomes; once the script is used up the
  service is unreachable.
\<close>

definition scripted :: "(error + response) list \<Rightarrow> nat \<Rightarrow> error + response" where
  "scripted rs i = (if i < length rs then rs ! i else Inl ''fetch failed'')"

definition quota_exceeded :: "error + response" where
  "quota_exceeded = Inr \<lparr>status = 429, raw_text = ''Resource exhausted'', payload = InvalidJson ''Unexpected token''\<rparr>"

definition answer :: "string \<Rightarrow> error + response" where
  "answer t = Inr \<lparr>status = 200, raw_text = t, payload = Candidates [Inr t]\<rparr>"

text \<open>Vocabulary for stating what the retry loop does.\<close>

definition fetches :: "gen_event list \<Rightarrow> nat" where
  "fetches tr = length (filter (\<lambda>e. e = Fetch) tr)"

definition succeeded :: "attempt_result \<Rightarrow> bool" where
  "succeeded a = (case a of Returned t \<Rightarrow> True | _ \<Rightarrow> False)"

definition backoff :: "attempt_result \<Rightarrow> nat" where
  "backoff a = (case a of RateLimited \<Rightarrow> 10000 | _ \<Rightarrow> 2000)"

definition retry_trace :: "(nat \<Rightarrow> error + response) \<Rightarrow> nat \<Rightarrow> nat \<Rightarrow> gen_event list" where
  "retry_trace f a n = concat (map (\<lambda>j. [Fetch, Sleep (backoff (try_body (f j)))]) [a..<n])"

definition last_failure :: "attempt_result \<Rightarrow> gen_event list" where
  "last_failure a = (case a of RateLimited \<Rightarrow> [Fetch, Sleep 10000] | _ \<Rightarrow> [Fetch])"

definition raised :: "attempt_result \<Rightarrow> error" where
  "raised a = (case a of Thrown e \<Rightarrow> e | _ \<Rightarrow> ''Failed to generate content'')"

section \<open>Parsed generation output\<close>

text \<open>
  The value \<^verbatim>\<open>JSON.parse\<close> returns is untyped. Numbers are kept as integers: only
  their truthiness matters to the code modelled here. An object is the association list of
  its own properties.
\<close>

datatype json = JNull | JBool bool | JNum int | JStr string | JArr "json list" | JObj "(string \<times> json) list"

text \<open>
  Property access \<^verbatim>\<open>v.k\<close> for the property names the agent reads (none of them is a
  built-in property of a string, number, boolean or array): a \<^verbatim>\<open>TypeError\<close> on
  \<^verbatim>\<open>null\<close>, \<open>None\<close> for \<^verbatim>\<open>undefined\<close>.
\<close>

fun get_prop :: "json \<Rightarrow> string \<Rightarrow> error + json option" where
  "get_prop JNull k = Inl (''Cannot read properties of null (reading '' @ k @ '')'')"
| "get_prop (JObj kvs) k = Inr (map_of kvs k)"
| "get_prop _ k = Inr None"

fun truthy :: "json \<Rightarrow> bool" where
  "truthy JNull = False"
| "truthy (JBool b) = b"
| "truthy (JNum n) = (n \<noteq> 0)"
| "truthy (JStr s) = (s \<noteq> [])"
| "truthy (JArr _) = True"
| "truthy (JObj _) = True"

text \<open>\<^verbatim>\<open>toUpperCase\<close> on the ASCII letters (a \<open>char\<close> is a byte).\<close>

definition upper_char :: "char \<Rightarrow> char" where
  "upper_char c =
     (case map_of (zip ''abcdefghijklmnopqrstuvwxyz'' ''ABCDEFGHIJKLMNOPQRSTUVWXYZ'') c of
        Some u \<Rightarrow> u
      | None \<Rightarrow> c)"

definition toUpperCase :: "string \<Rightarrow> string" where
  "toUpperCase s = map upper_char s"

text \<open>
  \<^verbatim>\<open>v?.toUpperCase()\<close>: \<^verbatim>\<open>undefined\<close> when \<open>v\<close> is nullish, the upper-cased
  string when \<open>v\<close> is a string, and a \<^verbatim>\<open>TypeError\<close> otherwise (the method is
  missing on every other kind of value).
\<close>

fun opt_toUpperCase :: "json option \<Rightarrow> error + string option" where
  "opt_toUpperCase None = Inr None"
| "opt_toUpperCase (Some JNull) = Inr None"
| "opt_toUpperCase (Some (JStr s)) = Inr (Some (toUpperCase s))"
| "opt_toUpperCase (Some _) = Inl ''toUpperCase is not a function''"

text \<open>
  \<^verbatim>\<open>v?.substring(0, n)\<close> as used inside log messages: only whether it throws matters.
\<close>

fun opt_substring_throws :: "json option \<Rightarrow> error option" where
  "opt_substring_throws None = None"
| "opt_substring_throws (Some JNull) = None"
| "opt_substring_throws (Some (JStr s)) = None"
| "opt_substring_throws (Some _) = Some ''substring is not a function''"

text \<open>\<^verbatim>\<open>s || d\<close> for an optional string.\<close>

definition or_default :: "string option \<Rightarrow> string \<Rightarrow> string" where
  "or_default v d = (case v of None \<Rightarrow> d | Some s \<Rightarrow> if s = [] then d else s)"

subsection \<open>cleanJsonString (graph.ts)\<close>

function remove_all :: "string \<Rightarrow> string \<Rightarrow> string" where
  "remove_all pat [] = []"
| "remove_all pat (c # cs) =
     (if pat \<noteq> [] \<and> take (length pat) (c # cs) = pat
      then remove_all pat (drop (length pat - 1) cs)
      else c # remove_all pat cs)"
  by pat_completeness auto
termination
  by (relation "measure (\<lambda>(pat, s). length s)") auto

text \<open>\<^verbatim>\<open>trim\<close> on the ASCII white space.\<close>

definition is_space :: "char \<Rightarrow> bool" where
  "is_space c = (c \<in> set [CHR '' '', CHR 0x09, CHR 0x0A, CHR 0x0B, CHR 0x0C, CHR 0x0D])"

definition trim :: "string \<Rightarrow> string" where
  "trim s = rev (dropWhile is_space (rev (dropWhile is_space s)))"

text \<open>\<^verbatim>\<open>indexOf\<close> and \<^verbatim>\<open>lastIndexOf\<close> of one character; \<open>None\<close> stands for \<open>-1\<close>.\<close>

fun indexOf :: "string \<Rightarrow> char \<Rightarrow> nat option" where
  "indexOf [] c = None"
| "indexOf (x # xs) c = (if x = c then Some 0 else map_option Suc (indexOf xs c))"

definition lastIndexOf :: "string \<Rightarrow> char \<Rightarrow> nat option" where
  "lastIndexOf s c = map_option (\<lambda>i. length s - 1 - i) (indexOf (rev s) c)"

definition substring :: "string \<Rightarrow> nat \<Rightarrow> nat \<Rightarrow> string" where
  "substring s a b = (let lo = min (min a b) (length s); hi = min (max a b) (length s) in take (hi - lo) (drop lo s))"

definition cleanJsonString :: "string \<Rightarrow> string" where
  "cleanJsonString t =
     (let clean = trim (remove_all ''```'' (remove_all ''```json'' t));
          firstBracket = indexOf clean CHR ''['';
          lastBracket = lastIndexOf clean CHR '']'';
          firstBrace = indexOf clean CHR ''{'';
          lastBrace = lastIndexOf clean CHR ''}''
      in case (firstBracket, lastBracket) of
           (Some fb, Some lb) \<Rightarrow>
             if (case firstBrace of None \<Rightarrow> True | Some fc \<Rightarrow> fb < fc) then substring clean fb (lb + 1)
             else (case (firstBrace, lastBrace) of
                     (Some fc, Some lc) \<Rightarrow> substring clean fc (lc + 1)
                   | _ \<Rightarrow> clean)
         | _ \<Rightarrow>
             (case (firstBrace, lastBrace) of
                (Some fc, Some lc) \<Rightarrow> substring clean fc (lc + 1)
              | _ \<Rightarrow> clean))"

text \<open>
  \<^verbatim>\<open>JSON.parse(cleanJsonString(text))\<close>; the library parser is a parameter, \<open>Inl\<close> when
  it throws a \<^verbatim>\<open>SyntaxError\<close>.
\<close>

type_synonym parser = "string \<Rightarrow> error + json"

definition parse_reply :: "parser \<Rightarrow> string \<Rightarrow> error + json" where
  "parse_reply jsonParse t = jsonParse (cleanJsonString t)"


section \<open>Agent state and graph nodes (graph.ts)\<close>

record LogEntry =
  speaker :: string
  message :: string
  timestamp :: int
  sentiment :: "string option"

text \<open>
  \<open>decision\<close> is \<open>None\<close> for \<^verbatim>\<open>null\<close>. \<open>reasoning\<close> and the confidences are
  copied unchecked from parsed generation output, so they are kept as \<open>json\<close>.
\<close>

record AgentState =
  question :: string
  marketId :: string
  marketPda :: string
  facts :: "string list"
  factConfidences :: "json list"
  decision :: "string option"
  reasoning :: json
  iterations :: int
  logs :: "LogEntry list"
  evidenceUrls :: "string list"
  ipfsTranscriptCid :: string
  transactionSignature :: string

text \<open>
  What a node returns: a partial state, \<open>None\<close> for a key that is absent or nullish. Every
  channel a node writes has the reducer \<^verbatim>\<open>(a, b) => b ?? a\<close>; no node writes the
  \<open>logs\<close> channel.
\<close>

record AgentUpdate =
  u_facts :: "string list option"
  u_factConfidences :: "json list option"
  u_decision :: "string option"
  u_reasoning :: "json option"
  u_iterations :: "int option"
  u_ipfsTranscriptCid :: "string option"
  u_transactionSignature :: "string option"

definition no_update :: AgentUpdate where
  "no_update = \<lparr>u_facts = None, u_factConfidences = None, u_decision = None, u_reasoning = None,
                 u_iterations = None, u_ipfsTranscriptCid = None, u_transactionSignature = None\<rparr>"

definition coalesce :: "'a option \<Rightarrow> 'a \<Rightarrow> 'a" where
  "coalesce b a = (case b of None \<Rightarrow> a | Some v \<Rightarrow> v)"

definition apply_update :: "AgentState \<Rightarrow> AgentUpdate \<Rightarrow> AgentState" where
  "apply_update s u =
     s\<lparr>facts := coalesce (u_facts u) (facts s),
       factConfidences := coalesce (u_factConfidences u) (factConfidences s),
       decision := (case u_decision u of None \<Rightarrow> decision s | Some d \<Rightarrow> Some d),
       reasoning := coalesce (u_reasoning u) (reasoning s),
       iterations := coalesce (u_iterations u) (iterations s),
       ipfsTranscriptCid := coalesce (u_ipfsTranscriptCid u) (ipfsTranscriptCid s),
       transactionSignature := coalesce (u_transactionSignature u) (transactionSignature s)\<rparr>"

text \<open>Sequencing of steps that may throw.\<close>

definition and_then :: "error + 'a \<Rightarrow> ('a \<Rightarrow> error + 'b) \<Rightarrow> error + 'b" where
  "and_then m f = (case m of Inl e \<Rightarrow> Inl e | Inr x \<Rightarrow> f x)"

definition nullish :: "json option \<Rightarrow> bool" where
  "nullish v = (case v of None \<Rightarrow> True | Some JNull \<Rightarrow> True | Some _ \<Rightarrow> False)"

subsection \<open>researcherNode\<close>

text \<open>
  The nodes are given the outcome of their one \<^verbatim>\<open>generateContent\<close> call: \<open>Inl\<close> when it
  raised, \<open>Inr\<close> with the text otherwise. The entries the Researcher and the Judge append to
  the global log are not modelled, except that a log message whose evaluation throws is a
  throw of the \<^verbatim>\<open>try\<close> block.
\<close>

fun all_strings :: "json list \<Rightarrow> string list option" where
  "all_strings [] = Some []"
| "all_strings (JStr s # vs) = map_option ((#) s) (all_strings vs)"
| "all_strings (_ # vs) = None"

definition or_else :: "json option \<Rightarrow> json \<Rightarrow> json" where
  "or_else v d = (case v of None \<Rightarrow> d | Some x \<Rightarrow> if truthy x then x else d)"

definition research_body :: "parser \<Rightarrow> string \<Rightarrow> error + (string list \<times> json list)" where
  "research_body jsonParse responseText =
     and_then (parse_reply jsonParse responseText) (\<lambda>parsed.
     and_then (get_prop parsed ''facts'') (\<lambda>f.
     and_then (get_prop parsed ''confidences'') (\<lambda>c.
       let fs = or_else f (JArr []) in
       and_then (case c of
                   Some cv \<Rightarrow> if truthy cv then Inr cv
                              else (case fs of JArr xs \<Rightarrow> Inr (JArr (map (\<lambda>_. JNum 70) xs))
                                    | _ \<Rightarrow> Inl ''facts.map is not a function'')
                 | None \<Rightarrow> (case fs of JArr xs \<Rightarrow> Inr (JArr (map (\<lambda>_. JNum 70) xs))
                            | _ \<Rightarrow> Inl ''facts.map is not a function'')) (\<lambda>confidences.
       case confidences of
         JArr cs \<Rightarrow>
           (case fs of
              JArr xs \<Rightarrow>
                (case all_strings xs of
                   Some strs \<Rightarrow> Inr (strs, cs)
                 | None \<Rightarrow> Inl ''fact.substring is not a function'')
            | _ \<Rightarrow> Inl ''facts.forEach is not a function'')
       | _ \<Rightarrow> Inl ''confidences.reduce is not a function''))))"

definition researcherNode :: "parser \<Rightarrow> error + string \<Rightarrow> AgentState \<Rightarrow> AgentUpdate" where
  "researcherNode jsonParse gen state =
     (case and_then gen (research_body jsonParse) of
        Inr (fs, cs) \<Rightarrow> no_update\<lparr>u_facts := Some fs, u_factConfidences := Some cs\<rparr>
      | Inl e \<Rightarrow> no_update\<lparr>u_facts := Some [''Unable to verify facts due to agent error.''],
                             u_factConfidences := Some [JNum 0]\<rparr>)"

subsection \<open>judgeNode\<close>

definition judge_body :: "parser \<Rightarrow> string \<Rightarrow> error + (string \<times> json option)" where
  "judge_body jsonParse responseText =
     and_then (parse_reply jsonParse responseText) (\<lambda>judgment.
     and_then (get_prop judgment ''decision'') (\<lambda>d.
     and_then (opt_toUpperCase d) (\<lambda>u.
       let decision = or_default u ''UNCERTAIN'' in
       and_then (get_prop judgment ''key_evidence'') (\<lambda>k.
         case opt_substring_throws k of
           Some e \<Rightarrow> Inl e
         | None \<Rightarrow> and_then (get_prop judgment ''reasoning'') (\<lambda>r. Inr (decision, r))))))"

definition judgeNode :: "parser \<Rightarrow> error + string \<Rightarrow> AgentState \<Rightarrow> AgentUpdate" where
  "judgeNode jsonParse gen state =
     (case and_then gen (judge_body jsonParse) of
        Inr (d, r) \<Rightarrow>
          no_update\<lparr>u_decision := Some d,
                    u_reasoning := (if nullish r then None else r),
                    u_iterations := Some (iterations state + 1)\<rparr>
      | Inl e \<Rightarrow>
          no_update\<lparr>u_decision := Some ''UNCERTAIN'',
                    u_reasoning := Some (JStr ''Error in judgment process''),
                    u_iterations := Some (iterations state + 1)\<rparr>)"

subsection \<open>shouldContinue and the compiled workflow\<close>

datatype route = researcher | executor

definition shouldContinue :: "AgentState \<Rightarrow> route" where
  "shouldContinue state =
     (if decision state = Some ''UNCERTAIN'' \<and> iterations state < 3 then researcher else executor)"

text \<open>
  The generation outcomes of the Researcher and of the Judge in each pass through the loop,
  and the JSON parser.
\<close>

record generation =
  research_gen :: "nat \<Rightarrow> error + string"
  judge_gen :: "nat \<Rightarrow> error + string"
  jsonParse :: parser

definition research_then_judge :: "generation \<Rightarrow> nat \<Rightarrow> AgentState \<Rightarrow> AgentState" where
  "research_then_judge g k s =
     (let s1 = apply_update s (researcherNode (jsonParse g) (research_gen g k) s)
      in apply_update s1 (judgeNode (jsonParse g) (judge_gen g k) s1))"

text \<open>
  The edges researcher \<open>\<rightarrow>\<close> judge \<open>\<rightarrow>\<close> shouldContinue, from the entry point until the router
  names the executor. The result is the state handed to the executor and the number of Judge
  passes made. \<open>k\<close> counts the passes already made.
\<close>

function research_judge_loop :: "generation \<Rightarrow> nat \<Rightarrow> AgentState \<Rightarrow> AgentState \<times> nat" where
  "research_judge_loop g k s =
     (let s2 = research_then_judge g k s
      in if shouldContinue s2 = researcher
         then (let (s', n) = research_judge_loop g (k + 1) s2 in (s', n + 1))
         else (s2, 1))"
  by pat_completeness auto
termination
  by (relation "measure (\<lambda>(g, k, s). nat (3 - iterations s))")
     (auto simp: research_then_judge_def shouldContinue_def apply_update_def judgeNode_def
        researcherNode_def coalesce_def no_update_def Let_def split: sum.splits prod.splits if_splits)

declare research_judge_loop.simps [simp del]


section \<open>Transcript pinning (ipfs.ts)\<close>

record EvidenceItem =
  url :: string
  description :: string
  submittedBy :: string
  e_timestamp :: int

record TranscriptBundle =
  t_marketId :: string
  t_marketPda :: string
  t_question :: string
  t_facts :: "string list"
  t_decision :: string
  t_reasoning :: json
  agentLogs :: "LogEntry list"
  evidence :: "EvidenceItem list"
  t_timestamp :: int
  version :: string

text \<open>
  The collaborators of ipfs.ts: the configured API key (\<^verbatim>\<open>process.env.NFT_STORAGE_KEY || ''\<close>),
  the store's \<^verbatim>\<open>storeBlob\<close> (\<open>Inl\<close> when it throws), SHA-256 of \<^verbatim>\<open>crypto\<close>,
  \<^verbatim>\<open>JSON.stringify(_, null, 2)\<close> on a transcript bundle, and the same serialisation of
  \<^verbatim>\<open>createProofNFTMetadata(marketId, question, outcome, transcriptCid, resolutionTimestamp)\<close>.
\<close>

record storage =
  nft_storage_key :: string
  storeBlob :: "string \<Rightarrow> error + string"
  sha256 :: "string \<Rightarrow> 8 word list"
  stringify :: "TranscriptBundle \<Rightarrow> string"
  metadata_json :: "string \<Rightarrow> string \<Rightarrow> string \<Rightarrow> string \<Rightarrow> int \<Rightarrow> string"

text \<open>\<open>getClient\<close>: whether a client is returned rather than \<^verbatim>\<open>null\<close>.\<close>

definition getClient :: "storage \<Rightarrow> bool" where
  "getClient st =
     (let apiKey = nft_storage_key st
      in \<not> (apiKey = [] \<or> apiKey = ''YOUR_NFT_STORAGE_API_KEY_HERE'' \<or> length apiKey < 10))"

definition hex_digit :: "nat \<Rightarrow> char" where
  "hex_digit n = ''0123456789abcdef'' ! (n mod 16)"

definition hex :: "8 word list \<Rightarrow> string" where
  "hex bs = concat (map (\<lambda>b. [hex_digit (unat b div 16), hex_digit (unat b mod 16)]) bs)"

text \<open>\<open>createMockCid\<close>, the helper local to \<open>pinTranscript\<close>.\<close>

definition createMockCid :: "storage \<Rightarrow> string \<Rightarrow> string" where
  "createMockCid st content = ''bafkreig'' @ substring (hex (sha256 st content)) 0 50"

definition pinTranscript :: "storage \<Rightarrow> TranscriptBundle \<Rightarrow> error + string" where
  "pinTranscript st transcript =
     (let client = getClient st;
          content = stringify st transcript
      in if \<not> client then Inr (createMockCid st content)
         else (case storeBlob st content of
                 Inr cid \<Rightarrow> Inr cid
               | Inl e \<Rightarrow> Inr (createMockCid st content)))"

text \<open>
  \<open>pinNFTMetadata\<close>, given the serialised metadata. Only its tag letter differs from the
  transcript's fallback.
\<close>

definition pinNFTMetadata :: "storage \<Rightarrow> string \<Rightarrow> error + string" where
  "pinNFTMetadata st content =
     (if \<not> getClient st then Inr (''bafkreim'' @ substring (hex (sha256 st content)) 0 50)
      else (case storeBlob st content of
              Inr cid \<Rightarrow> Inr cid
            | Inl e \<Rightarrow> Inr (''bafkreim'' @ substring (hex (sha256 st content)) 0 50)))"

definition cidToBytes32 :: "storage \<Rightarrow> string \<Rightarrow> 8 word list" where
  "cidToBytes32 st cid = sha256 st cid"

section \<open>Ledger access (solana.ts, class SolanaAgent)\<close>

datatype pubkey = PublicKey string

record TransactionResult =
  success :: bool
  signature :: "string option"
  tx_error :: "string option"

record ResolveMarketParams =
  p_marketPda :: pubkey
  p_marketId :: string
  p_outcome :: int
  p_ipfsTranscriptHash :: "8 word list"

text \<open>A decoded CredStake account; \<open>amount\<close> is the JavaScript number read from it.\<close>

record CredStake =
  stake_pubkey :: pubkey
  user :: pubkey
  market :: pubkey
  amount :: nat
  direction :: bool
  stake_timestamp :: int
  bump :: nat

text \<open>
  The ledger and the web3 library as seen by the agent:
  \<^item> \<open>program_loaded\<close>: whether \<^verbatim>\<open>this.program\<close> is set once \<open>initProgram\<close> has run;
  \<^item> \<open>newPublicKey\<close>: \<^verbatim>\<open>new PublicKey(s)\<close> on a string, which throws on input that is
    not a base-58 encoding of 32 bytes;
  \<^item> \<open>findMarketPda\<close>: \<^verbatim>\<open>PublicKey.findProgramAddressSync\<close> on the seeds
    \<^verbatim>\<open>'market'\<close> and the market id under the Prophecy program id, which throws on a
    seed longer than 32 bytes;
  \<^item> \<open>resolve_rpc\<close>: sending the \<^verbatim>\<open>resolveMarket\<close> instruction;
  \<^item> \<open>getProgramAccounts\<close>: the filtered account query together with the decoding of the
    accounts it returns;
  \<^item> \<open>distribute_rpc\<close>: sending \<^verbatim>\<open>distributeInsightRewards\<close>; its first argument counts
    the disbursements made before in the same run;
  \<^item> \<open>fetch_account\<close>: \<^verbatim>\<open>program.account.market.fetch\<close>, giving the tweet URL of the
    market account.
\<close>

record chain =
  program_loaded :: bool
  newPublicKey :: "string \<Rightarrow> error + pubkey"
  findMarketPda :: "string \<Rightarrow> error + pubkey"
  resolve_rpc :: "ResolveMarketParams \<Rightarrow> error + string"
  simulated_signature :: string
  getProgramAccounts :: "pubkey \<Rightarrow> error + CredStake list"
  distribute_rpc :: "nat \<Rightarrow> pubkey \<Rightarrow> pubkey \<Rightarrow> nat \<Rightarrow> error + string"
  fetch_account :: "pubkey \<Rightarrow> error + string"

definition tx_ok :: "string \<Rightarrow> TransactionResult" where
  "tx_ok sig = \<lparr>success = True, signature = Some sig, tx_error = None\<rparr>"

definition tx_failed :: "error \<Rightarrow> TransactionResult" where
  "tx_failed e = \<lparr>success = False, signature = None, tx_error = Some e\<rparr>"

definition resolveMarket :: "chain \<Rightarrow> ResolveMarketParams \<Rightarrow> TransactionResult" where
  "resolveMarket c params =
     (case (if program_loaded c then resolve_rpc c params else Inr (simulated_signature c)) of
        Inr tx \<Rightarrow> tx_ok tx
      | Inl e \<Rightarrow> tx_failed e)"

text \<open>The body of the \<^verbatim>\<open>try\<close> block of \<open>getCredStakesForMarket\<close>, and the method.\<close>

definition query_stakes :: "chain \<Rightarrow> pubkey \<Rightarrow> error + CredStake list" where
  "query_stakes c pda =
     (if \<not> program_loaded c then Inl ''Program not initialized'' else getProgramAccounts c pda)"

definition getCredStakesForMarket :: "chain \<Rightarrow> pubkey \<Rightarrow> CredStake list" where
  "getCredStakesForMarket c pda =
     (case query_stakes c pda of Inr stakes \<Rightarrow> stakes | Inl e \<Rightarrow> [])"

definition distributeRewardToWinner :: "chain \<Rightarrow> nat \<Rightarrow> pubkey \<Rightarrow> pubkey \<Rightarrow> nat \<Rightarrow> TransactionResult" where
  "distributeRewardToWinner c k pda userPubkey amt =
     (case (if \<not> program_loaded c then Inl ''Program not initialized''
            else distribute_rpc c k pda userPubkey amt) of
        Inr tx \<Rightarrow> tx_ok tx
      | Inl e \<Rightarrow> tx_failed e)"

text \<open>Calls made to the collaborators, in order.\<close>

datatype call =
    PinTranscript TranscriptBundle
  | PinNFTMetadata string
  | ResolveMarket ResolveMarketParams
  | GetCredStakes pubkey
  | DistributeReward pubkey pubkey nat
  | Delay nat

record DistributionResult =
  distributed :: nat
  failed :: nat
  total :: nat

text \<open>
  The \<^verbatim>\<open>for (const stake of winningStakes)\<close> loop with its two counters; \<open>k\<close> numbers the
  disbursement.
\<close>

fun distribute_loop :: "chain \<Rightarrow> pubkey \<Rightarrow> nat \<Rightarrow> CredStake list \<Rightarrow> nat \<Rightarrow> nat \<Rightarrow> (nat \<times> nat) \<times> call list" where
  "distribute_loop c pda k [] d f = ((d, f), [])"
| "distribute_loop c pda k (stake # rest) d f =
     (let rewardAmount = amount stake * 2;
          result = distributeRewardToWinner c k pda (user stake) rewardAmount;
          (df, tr) = (if success result
                      then distribute_loop c pda (k + 1) rest (d + 1) f
                      else distribute_loop c pda (k + 1) rest d (f + 1))
      in (df, DistributeReward pda (user stake) rewardAmount # Delay 500 # tr))"

definition winningStakes :: "CredStake list \<Rightarrow> int \<Rightarrow> CredStake list" where
  "winningStakes stakes outcome = filter (\<lambda>stake. direction stake = (outcome = 1)) stakes"

definition distributeAllRewards :: "chain \<Rightarrow> pubkey \<Rightarrow> int \<Rightarrow> DistributionResult \<times> call list" where
  "distributeAllRewards c pda outcome =
     (let stakes = getCredStakesForMarket c pda
      in if length stakes = 0
         then (\<lparr>distributed = 0, failed = 0, total = 0\<rparr>, [GetCredStakes pda])
         else (let winning = winningStakes stakes outcome;
                   ((d, f), tr) = distribute_loop c pda 0 winning 0 0
               in (\<lparr>distributed = d, failed = f, total = length winning\<rparr>,
                   GetCredStakes pda # tr)))"


definition fetchMarket :: "chain \<Rightarrow> string \<Rightarrow> string option" where
  "fetchMarket c mid =
     (case findMarketPda c mid of
        Inl e \<Rightarrow> None
      | Inr pda \<Rightarrow>
          if program_loaded c
          then (case fetch_account c pda of Inr acct \<Rightarrow> Some acct | Inl e \<Rightarrow> None)
          else None)"

definition toBase58 :: "pubkey \<Rightarrow> string" where
  "toBase58 k = (case k of PublicKey s \<Rightarrow> s)"

section \<open>Executor node (graph.ts)\<close>

text \<open>
  The global log keeps its last 200 entries. Messages are given without the pictograph that
  starts them in the source. \<open>now\<close> is the reading of \<^verbatim>\<open>Date.now()\<close>, taken as constant
  during one node.
\<close>

definition addGlobalLog :: "LogEntry list \<Rightarrow> LogEntry \<Rightarrow> LogEntry list" where
  "addGlobalLog history e = (let h = history @ [e] in if length h > 200 then tl h else h)"

definition entry :: "string \<Rightarrow> string \<Rightarrow> int \<Rightarrow> string \<Rightarrow> LogEntry" where
  "entry sp msg now sent = \<lparr>speaker = sp, message = msg, timestamp = now, sentiment = Some sent\<rparr>"

definition show_opt :: "string option \<Rightarrow> string" where
  "show_opt v = (case v of None \<Rightarrow> ''undefined'' | Some s \<Rightarrow> s)"

text \<open>The \<^verbatim>\<open>try\<close> block that distributes the rewards, with its \<^verbatim>\<open>catch\<close>.\<close>

definition reward_block :: "chain \<Rightarrow> int \<Rightarrow> AgentState \<Rightarrow> string \<Rightarrow> LogEntry list \<Rightarrow> LogEntry list \<times> call list" where
  "reward_block c now state d h =
     (let h1 = addGlobalLog h (entry ''Executor'' ''Distributing rewards to winning stakers...'' now ''Positive'')
      in case findMarketPda c (marketId state) of
           Inl e \<Rightarrow>
             (addGlobalLog h1 (entry ''Executor'' (''Reward distribution error: '' @ e) now ''Negative''), [])
         | Inr pda \<Rightarrow>
             (let outcomeNum = (if d = ''YES'' then 1 else 0);
                  (distResult, tr) = distributeAllRewards c pda outcomeNum
              in if total distResult > 0
                 then (let h2 = addGlobalLog h1 (entry ''Executor''
                                  (''Distributed rewards: '' @ show_nat (distributed distResult) @ ''/''
                                     @ show_nat (total distResult) @ '' winners received 2x their stake!'')
                                  now ''Positive'')
                       in if failed distResult > 0
                          then (addGlobalLog h2 (entry ''Executor''
                                  (show_nat (failed distResult) @ '' reward distribution(s) failed'')
                                  now ''Negative''), tr)
                          else (h2, tr))
                 else (addGlobalLog h1 (entry ''Executor'' ''No stakes found for this market'' now ''Neutral''), tr)))"

text \<open>
  \<^verbatim>\<open>new PublicKey(marketPda || solanaAgent.findMarketPda(marketId)[0])\<close>, which throws
  when the string is not a public key or the address cannot be derived.
\<close>

definition market_address :: "chain \<Rightarrow> AgentState \<Rightarrow> error + pubkey" where
  "market_address c state =
     (if marketPda state \<noteq> [] then newPublicKey c (marketPda state)
      else findMarketPda c (marketId state))"

text \<open>
  The branch for a decision \<open>d\<close> that is \<^verbatim>\<open>'YES'\<close> or \<^verbatim>\<open>'NO'\<close>. The result is what
  the node returns or throws, the global log and the calls made.
\<close>

definition settle :: "storage \<Rightarrow> chain \<Rightarrow> int \<Rightarrow> LogEntry list \<Rightarrow> AgentState \<Rightarrow> string
    \<Rightarrow> (error + AgentUpdate) \<times> LogEntry list \<times> call list" where
  "settle st c now h0 state d =
     (let transcriptBundle =
            \<lparr>t_marketId = marketId state, t_marketPda = marketPda state, t_question = question state,
             t_facts = facts state, t_decision = d, t_reasoning = reasoning state,
             agentLogs = filter (\<lambda>l. timestamp l > now - 60000) h0,
             evidence = map (\<lambda>u. \<lparr>url = u, description = ''User submitted evidence'',
                                     submittedBy = ''user'', e_timestamp = now\<rparr>) (evidenceUrls state),
             t_timestamp = now, version = ''1.0.0''\<rparr>;
          h1 = addGlobalLog h0 (entry ''Executor'' ''Pinning transcript to IPFS...'' now ''Neutral'')
      in case pinTranscript st transcriptBundle of
           Inl e \<Rightarrow> (Inl e, h1, [PinTranscript transcriptBundle])
         | Inr transcriptCid \<Rightarrow>
      (let ipfsHash = cidToBytes32 st transcriptCid;
           h2 = addGlobalLog h1 (entry ''Executor''
                  (''Transcript pinned: '' @ substring transcriptCid 0 20 @ ''...'') now ''Positive'');
           nftMetadata = metadata_json st (marketId state) (question state) d transcriptCid now
       in case pinNFTMetadata st nftMetadata of
            Inl e \<Rightarrow> (Inl e, h2, [PinTranscript transcriptBundle, PinNFTMetadata nftMetadata])
          | Inr metadataCid \<Rightarrow>
      (let h3 = addGlobalLog h2 (entry ''Executor''
                  (''NFT metadata pinned: '' @ substring metadataCid 0 20 @ ''...'') now ''Positive'');
           outcome = (if d = ''YES'' then 1 else 0);
           pins = [PinTranscript transcriptBundle, PinNFTMetadata nftMetadata]
       in case market_address c state of
            Inl e \<Rightarrow> (Inl e, h3, pins)
          | Inr pda \<Rightarrow>
      (let params = \<lparr>p_marketPda = pda, p_marketId = marketId state, p_outcome = outcome,
                     p_ipfsTranscriptHash = ipfsHash\<rparr>;
           result = resolveMarket c params
       in if success result
          then (let h4 = addGlobalLog h3 (entry ''Executor'' (''MARKET RESOLVED ON-CHAIN: '' @ d) now ''Positive'');
                    h5 = addGlobalLog h4 (entry ''Executor''
                           (''   Transaction: '' @ show_opt (signature result)) now ''Positive'');
                    (h6, tr) = reward_block c now state d h5
                in (Inr (no_update\<lparr>u_ipfsTranscriptCid := Some transcriptCid,
                                     u_transactionSignature := Some (or_default (signature result) [])\<rparr>),
                    h6, pins @ [ResolveMarket params] @ tr))
          else (Inr no_update,
                addGlobalLog h3 (entry ''Executor''
                  (''On-chain resolution failed: '' @ show_opt (tx_error result)) now ''Negative''),
                pins @ [ResolveMarket params])))))"

definition executorNode :: "storage \<Rightarrow> chain \<Rightarrow> int \<Rightarrow> LogEntry list \<Rightarrow> AgentState
    \<Rightarrow> (error + AgentUpdate) \<times> LogEntry list \<times> call list" where
  "executorNode st c now history state =
     (let h0 = addGlobalLog history (entry ''Executor''
                 (''Processing resolution for market '' @ marketId state @ ''...'') now ''Neutral'');
          unresolved = (Inr no_update,
               addGlobalLog h0 (entry ''Executor'' ''Market remains UNRESOLVED (decision uncertain)'' now ''Neutral''),
               [])
      in case decision state of
           None \<Rightarrow> unresolved
         | Some d \<Rightarrow> if d = ''YES'' \<or> d = ''NO'' then settle st c now h0 state d else unresolved)"

text \<open>
  \<^verbatim>\<open>agentApp.invoke\<close>: the loop of Researcher and Judge, then the Executor, then the end.
  It returns the final state, or throws what a node throws.
\<close>

definition agentApp_invoke :: "generation \<Rightarrow> storage \<Rightarrow> chain \<Rightarrow> int \<Rightarrow> LogEntry list \<Rightarrow> AgentState
    \<Rightarrow> (error + AgentState) \<times> LogEntry list \<times> call list" where
  "agentApp_invoke g st c now history s0 =
     (let (s, n) = research_judge_loop g 0 s0;
          (r, h, calls) = executorNode st c now history s
      in (case r of Inl e \<Rightarrow> Inl e | Inr u \<Rightarrow> Inr (apply_update s u), h, calls))"


section \<open>HTTP handlers that write the market table (graph.ts)\<close>

datatype market_status = Open | Researching | Judging | Executing | Resolved

record StoredEvidence =
  cid :: string
  ev_description :: string
  submitter :: string
  filename :: string
  ev_timestamp :: int

record TrackedMarket =
  m_question :: string
  tweetUrl :: "string option"
  m_status :: market_status
  m_logs :: "LogEntry list"
  createdAt :: "int option"
  m_evidence :: "StoredEvidence list"

record server =
  logHistory :: "LogEntry list"
  activeMarkets :: "string \<rightharpoonup> TrackedMarket"

text \<open>
  The body of a request to \<^verbatim>\<open>/resolve\<close>; a field that is missing is the empty string or
  the empty list.
\<close>

record ResolveRequest =
  req_marketId :: string
  req_question :: string
  req_marketPda :: string
  req_evidenceUrls :: "string list"

datatype http_response =
    BadRequest string
  | NotFound string
  | ServerError string
  | Resolved_ok AgentState
  | Accepted string

text \<open>
  The handler of \<^verbatim>\<open>POST /resolve\<close> up to its call of \<^verbatim>\<open>agentApp.invoke\<close>: either the
  response it returns early, or the server state it leaves and the state it starts the
  workflow from.
\<close>

definition resolve_admit :: "chain \<Rightarrow> int \<Rightarrow> server \<Rightarrow> ResolveRequest \<Rightarrow> http_response + (server \<times> AgentState)" where
  "resolve_admit c now srv req =
     (let mid = req_marketId req in
      if mid = [] then Inl (BadRequest ''marketId is required'')
      else
        case (if req_question req = []
              then (case findMarketPda c mid of
                      Inl e \<Rightarrow> Inl (ServerError (''Failed to fetch market from chain: '' @ e))
                    | Inr pda \<Rightarrow>
                        (case fetchMarket c mid of
                           Some acct \<Rightarrow>
                             Inr (''Analyze and determine the outcome of this prediction: '' @ acct,
                                  toBase58 pda, acct)
                         | None \<Rightarrow>
                             Inl (NotFound (''Market '' @ mid @ '' not found on-chain. Create it first via the frontend.''))))
              else Inr (req_question req, req_marketPda req, [])) of
          Inl resp \<Rightarrow> Inl resp
        | Inr (q, pda, tweet) \<Rightarrow>
            (let existingMarket = activeMarkets srv mid;
                 tracked = \<lparr>m_question = q, tweetUrl = Some tweet, m_status = Researching,
                            m_logs = (case existingMarket of None \<Rightarrow> [] | Some m \<Rightarrow> m_logs m),
                            createdAt = None,
                            m_evidence = (case existingMarket of None \<Rightarrow> [] | Some m \<Rightarrow> m_evidence m)\<rparr>;
                 h1 = addGlobalLog (logHistory srv)
                        (entry ''System'' (''Starting resolution for market: '' @ mid) now ''Positive'');
                 evidenceFromStorage =
                   map (\<lambda>e. if ev_description e \<noteq> []
                             then ev_description e @ '' (IPFS: '' @ cid e @ '')''
                             else ''Evidence IPFS: '' @ cid e) (m_evidence tracked);
                 allEvidence = evidenceFromStorage @ req_evidenceUrls req;
                 h2 = (if length allEvidence > 0
                       then addGlobalLog h1 (entry ''System''
                              (''Found '' @ show_nat (length allEvidence) @ '' evidence items to consider'')
                              now ''Positive'')
                       else h1)
             in Inr (\<lparr>logHistory = h2, activeMarkets = (activeMarkets srv)(mid \<mapsto> tracked)\<rparr>,
                     \<lparr>question = q, marketId = mid, marketPda = pda, facts = [], factConfidences = [],
                      decision = None, reasoning = JStr [], iterations = 0, logs = [],
                      evidenceUrls = allEvidence, ipfsTranscriptCid = [], transactionSignature = []\<rparr>)))"

definition resolve_handler :: "generation \<Rightarrow> storage \<Rightarrow> chain \<Rightarrow> int \<Rightarrow> server \<Rightarrow> ResolveRequest
    \<Rightarrow> server \<times> http_response \<times> call list" where
  "resolve_handler g st c now srv req =
     (case resolve_admit c now srv req of
        Inl resp \<Rightarrow> (srv, resp, [])
      | Inr (srv1, s0) \<Rightarrow>
          (let (r, h, calls) = agentApp_invoke g st c now (logHistory srv1) s0
           in (srv1\<lparr>logHistory := h\<rparr>,
               (case r of Inl e \<Rightarrow> ServerError e | Inr result \<Rightarrow> Resolved_ok result),
               calls)))"

text \<open>\<^verbatim>\<open>POST /market-created\<close>, given the market id and the tweet URL of the body.\<close>

definition market_created_handler :: "int \<Rightarrow> server \<Rightarrow> string \<Rightarrow> string \<Rightarrow> server \<times> http_response" where
  "market_created_handler now srv mid tweet =
     (if mid = [] then (srv, BadRequest ''marketId is required'')
      else (\<lparr>logHistory = addGlobalLog (logHistory srv)
                             (entry ''System'' (''Market created: '' @ mid) now ''Positive''),
             activeMarkets = (activeMarkets srv)(mid \<mapsto>
               \<lparr>m_question = (if tweet \<noteq> [] then tweet else ''Market '' @ mid),
                tweetUrl = Some tweet, m_status = Open, m_logs = [], createdAt = Some now,
                m_evidence = []\<rparr>)\<rparr>,
            Accepted ''Market tracked. Call POST /resolve to trigger AI resolution.''))"

text \<open>\<^verbatim>\<open>POST /evidence\<close>, given the evidence item of the body.\<close>

definition evidence_handler :: "int \<Rightarrow> server \<Rightarrow> string \<Rightarrow> StoredEvidence \<Rightarrow> server \<times> http_response" where
  "evidence_handler now srv mid ev =
     (if mid = [] \<or> cid ev = [] then (srv, BadRequest ''marketId and evidenceCid are required'')
      else (let m = (case activeMarkets srv mid of
                       None \<Rightarrow> \<lparr>m_question = ''Market '' @ mid, tweetUrl = None, m_status = Open,
                                  m_logs = [], createdAt = None, m_evidence = []\<rparr>
                     | Some m \<Rightarrow> m);
                m' = m\<lparr>m_evidence := m_evidence m @ [ev\<lparr>ev_timestamp := now\<rparr>]\<rparr>
            in (\<lparr>logHistory = addGlobalLog (logHistory srv)
                    (entry ''System'' (''Evidence submitted for market '' @ mid @ '': ''
                       @ substring (cid ev) 0 20 @ ''... ('' @ show_nat (length (m_evidence m')) @ '' total)'')
                       now ''Positive''),
                  activeMarkets = (activeMarkets srv)(mid \<mapsto> m')\<rparr>,
                Accepted ''Evidence recorded. Agent will consider in next evaluation.'')))"

section \<open>Reconsideration workflow (reconsideration.ts)\<close>

record ReconsiderationRequest =
  r_marketId :: string
  r_marketPda :: string
  originalOutcome :: string
  originalReasoning :: string
  newEvidenceCid :: string
  newEvidenceDescription :: string
  r_submitter :: string

text \<open>
  \<open>factAnalysis\<close>, \<open>confidenceLevel\<close> and the reasoning are copied unchecked from parsed
  generation output. The session log of the workflow is not modelled.
\<close>

record ReconsiderationState =
  request :: ReconsiderationRequest
  newEvidence :: string
  factAnalysis :: json
  confidenceLevel :: json
  recommendation :: string
  r_reasoning :: json

text \<open>
  The result without \<open>requestId\<close> and \<open>timestamp\<close> (random and clock values),
  \<open>confidenceChange\<close> (floating-point arithmetic on an unchecked value) and \<open>logs\<close>.
\<close>

record ReconsiderationResult =
  res_marketId :: string
  res_originalOutcome :: string
  newOutcome :: string
  analysis :: json
  res_recommendation :: string
  annotationNote :: "json option"

text \<open>\<open>cleanJsonString\<close> of reconsideration.ts looks for braces only.\<close>

definition cleanJsonString_braces :: "string \<Rightarrow> string" where
  "cleanJsonString_braces t =
     (let clean = trim (remove_all ''```'' (remove_all ''```json'' t))
      in case (indexOf clean CHR ''{'', lastIndexOf clean CHR ''}'') of
           (Some fc, Some lc) \<Rightarrow> substring clean fc (lc + 1)
         | _ \<Rightarrow> clean)"

definition analyze_body :: "parser \<Rightarrow> string \<Rightarrow> error + (json \<times> json)" where
  "analyze_body jp response =
     and_then (jp (cleanJsonString_braces response)) (\<lambda>parsed.
     and_then (get_prop parsed ''facts'') (\<lambda>f.
     and_then (get_prop parsed ''analysis'') (\<lambda>a.
       Inr (or_else f (JArr []), or_else a (JStr [])))))"

definition analyzeEvidenceNode :: "parser \<Rightarrow> error + string \<Rightarrow> ReconsiderationState \<Rightarrow> ReconsiderationState" where
  "analyzeEvidenceNode jp gen state =
     (case and_then gen (analyze_body jp) of
        Inr (f, a) \<Rightarrow>
          state\<lparr>newEvidence := newEvidenceDescription (request state), factAnalysis := f, r_reasoning := a\<rparr>
      | Inl e \<Rightarrow>
          state\<lparr>factAnalysis := JArr [JStr ''Unable to analyze evidence''],
                r_reasoning := JStr ''Analysis failed''\<rparr>)"

definition recon_judge_body :: "parser \<Rightarrow> string \<Rightarrow> error + (string \<times> json \<times> json)" where
  "recon_judge_body jp response =
     and_then (jp (cleanJsonString_braces response)) (\<lambda>parsed.
     and_then (get_prop parsed ''recommendation'') (\<lambda>r.
     and_then (opt_toUpperCase r) (\<lambda>u.
     and_then (get_prop parsed ''confidence_level'') (\<lambda>cl.
     and_then (get_prop parsed ''reasoning'') (\<lambda>rs.
       Inr (or_default u ''UPHOLD'', or_else cl (JNum 50), or_else rs (JStr [])))))))"

text \<open>
  The prompt is built before the \<^verbatim>\<open>try\<close> block and calls
  \<^verbatim>\<open>state.factAnalysis.join\<close>, which exists on arrays only.
\<close>

definition reconsiderationJudgeNode :: "parser \<Rightarrow> error + string \<Rightarrow> ReconsiderationState
    \<Rightarrow> error + ReconsiderationState" where
  "reconsiderationJudgeNode jp gen state =
     (case factAnalysis state of
        JArr xs \<Rightarrow>
          (case and_then gen (recon_judge_body jp) of
             Inr (rec, cl, rs) \<Rightarrow>
               Inr (state\<lparr>recommendation := rec, confidenceLevel := cl, r_reasoning := rs\<rparr>)
           | Inl e \<Rightarrow>
               Inr (state\<lparr>recommendation := ''UPHOLD'', confidenceLevel := JNum 0,
                          r_reasoning := JStr ''Error in judgment process''\<rparr>))
      | _ \<Rightarrow> Inl ''state.factAnalysis.join is not a function'')"

text \<open>
  \<open>processReconsideration\<close>, given the outcomes of the two generation calls (the one of
  the Analyze step, then the one of the Judge step).
\<close>

definition processReconsideration :: "parser \<Rightarrow> error + string \<Rightarrow> error + string \<Rightarrow> ReconsiderationRequest
    \<Rightarrow> error + ReconsiderationResult" where
  "processReconsideration jp gen_analyze gen_judge req =
     (let initialState = \<lparr>request = req, newEvidence = [], factAnalysis = JArr [],
                          confidenceLevel = JNum 50, recommendation = ''UPHOLD'', r_reasoning = JStr []\<rparr>
      in case reconsiderationJudgeNode jp gen_judge (analyzeEvidenceNode jp gen_analyze initialState) of
           Inl e \<Rightarrow> Inl e
         | Inr result \<Rightarrow>
             (let out = (if recommendation result = ''OVERTURN''
                         then (if originalOutcome req = ''YES'' then ''NO'' else ''YES'')
                         else ''UNCHANGED'')
              in Inr \<lparr>res_marketId = r_marketId req, res_originalOutcome = originalOutcome req,
                      newOutcome = out, analysis = r_reasoning result,
                      res_recommendation = recommendation result,
                      annotationNote = (if recommendation result = ''ANNOTATE''
                                        then Some (r_reasoning result) else None)\<rparr>))"


section \<open>Vocabulary and scenarios for the properties\<close>

definition is_resolve :: "call \<Rightarrow> bool" where
  "is_resolve e = (case e of ResolveMarket p \<Rightarrow> True | _ \<Rightarrow> False)"

definition is_disbursement :: "call \<Rightarrow> bool" where
  "is_disbursement e = (case e of DistributeReward m u a \<Rightarrow> True | _ \<Rightarrow> False)"

definition is_stake_query :: "call \<Rightarrow> bool" where
  "is_stake_query e = (case e of GetCredStakes m \<Rightarrow> True | _ \<Rightarrow> False)"

definition is_pin :: "call \<Rightarrow> bool" where
  "is_pin e = (case e of PinTranscript b \<Rightarrow> True | PinNFTMetadata m \<Rightarrow> True | _ \<Rightarrow> False)"

text \<open>
  A parser given by a table from texts to the values they denote; any other text is a
  syntax error.
\<close>

definition reply_parser :: "(string \<times> json) list \<Rightarrow> parser" where
  "reply_parser table t = (case map_of table t of Some v \<Rightarrow> Inr v | None \<Rightarrow> Inl ''Unexpected token'')"

text \<open>
  A ledger for concrete scenarios. A public key string is accepted when it is made of 32 to
  44 characters of the base-58 alphabet (which has no \<open>0\<close>, \<open>O\<close>, \<open>I\<close> and \<open>l\<close>); a
  market address is derived from an id of at most 32 bytes. The resolve instruction has the
  given result, the stake query the given result, and the disbursements whose numbers are
  listed fail.
\<close>

definition base58_key :: "string \<Rightarrow> error + pubkey" where
  "base58_key s =
     (if 32 \<le> length s \<and> length s \<le> 44 \<and>
         list_all (\<lambda>ch. ch \<in> set ''123456789ABCDEFGHJKLMNPQRSTUVWXYZabcdefghijkmnopqrstuvwxyz'') s
      then Inr (PublicKey s) else Inl ''Invalid public key input'')"

definition derive_pda :: "string \<Rightarrow> error + pubkey" where
  "derive_pda mid = (if length mid \<le> 32 then Inr (PublicKey (''pda-'' @ mid)) else Inl ''Max seed length exceeded'')"

definition ledger :: "error + string \<Rightarrow> error + CredStake list \<Rightarrow> nat list \<Rightarrow> chain" where
  "ledger resolve_result stakes failing =
     \<lparr>program_loaded = True, newPublicKey = base58_key, findMarketPda = derive_pda,
      resolve_rpc = (\<lambda>p. resolve_result), simulated_signature = ''sim_0'',
      getProgramAccounts = (\<lambda>p. stakes),
      distribute_rpc = (\<lambda>k m u a. if k \<in> set failing then Inl ''Transaction simulation failed'' else Inr ''sig''),
      fetch_account = (\<lambda>p. Inl ''Account does not exist'')\<rparr>"

definition stake_of :: "string \<Rightarrow> nat \<Rightarrow> bool \<Rightarrow> CredStake" where
  "stake_of who amt dir =
     \<lparr>stake_pubkey = PublicKey (''stake-'' @ who), user = PublicKey who,
      market = PublicKey ''pda-m1'', amount = amt, direction = dir, stake_timestamp = 0, bump = 255\<rparr>"

text \<open>Five stakes, three on Yes and two on No.\<close>

definition five_stakes :: "CredStake list" where
  "five_stakes = [stake_of ''alice'' 5 True, stake_of ''bob'' 7 False, stake_of ''carol'' 1 True,
                  stake_of ''dave'' 2 False, stake_of ''erin'' 10 True]"

text \<open>A store that is not configured, with a stand-in for the hash and the serialisers.\<close>

definition unconfigured_store :: storage where
  "unconfigured_store =
     \<lparr>nft_storage_key = [], storeBlob = (\<lambda>b. Inl ''Unauthorized''),
      sha256 = (\<lambda>t. replicate 32 (of_nat (length t))),
      stringify = (\<lambda>b. t_question b @ t_decision b),
      metadata_json = (\<lambda>m q d t n. m @ d @ t)\<rparr>"

definition state_with :: "string option \<Rightarrow> int \<Rightarrow> string \<Rightarrow> AgentState" where
  "state_with d n pda =
     \<lparr>question = ''Did event X occur?'', marketId = ''m1'', marketPda = pda, facts = [],
      factConfidences = [], decision = d, reasoning = JStr [], iterations = n, logs = [],
      evidenceUrls = [], ipfsTranscriptCid = [], transactionSignature = []\<rparr>"

text \<open>
  The parameters of the resolve call the executor makes for decision \<open>d\<close>, market address
  \<open>pda\<close> and transcript identifier \<open>tc\<close>; and the calls of the reward block.
\<close>

definition resolve_params :: "storage \<Rightarrow> AgentState \<Rightarrow> string \<Rightarrow> pubkey \<Rightarrow> string \<Rightarrow> ResolveMarketParams" where
  "resolve_params st s d pda tc =
     \<lparr>p_marketPda = pda, p_marketId = marketId s, p_outcome = (if d = ''YES'' then 1 else 0),
      p_ipfsTranscriptHash = cidToBytes32 st tc\<rparr>"

definition reward_calls :: "chain \<Rightarrow> AgentState \<Rightarrow> string \<Rightarrow> call list" where
  "reward_calls c s d =
     (case findMarketPda c (marketId s) of
        Inl e \<Rightarrow> []
      | Inr pda \<Rightarrow> snd (distributeAllRewards c pda (if d = ''YES'' then 1 else 0)))"

text \<open>
  A step of the reconsideration workflow fails when its generation call raises or the text
  it returns does not parse.
\<close>

definition step_failed :: "parser \<Rightarrow> error + string \<Rightarrow> bool" where
  "step_failed jp gen = (case gen of Inl e \<Rightarrow> True | Inr t \<Rightarrow> isl (jp (cleanJsonString_braces t)))"

text \<open>Replies of the two generation calls of the reconsideration workflow, and a request.\<close>

definition overturn_reply :: string where
  \<open>overturn_reply = ''{"recommendation": "OVERTURN", "confidence_level": 90, "reasoning": "Official record published"}''\<close>

definition overturn_json :: json where
  "overturn_json = JObj [(''recommendation'', JStr ''OVERTURN''), (''confidence_level'', JNum 90),
                         (''reasoning'', JStr ''Official record published'')]"

definition no_facts_reply :: string where
  \<open>no_facts_reply = ''{"facts": [], "contradicts_original": false, "credibility_score": 10, "warrants_reconsideration": false, "analysis": "nothing new"}''\<close>

definition no_facts_json :: json where
  "no_facts_json = JObj [(''facts'', JArr []), (''contradicts_original'', JBool False),
       (''credibility_score'', JNum 10), (''warrants_reconsideration'', JBool False),
       (''analysis'', JStr ''nothing new'')]"

definition demo_request :: ReconsiderationRequest where
  "demo_request = \<lparr>r_marketId = ''m1'', r_marketPda = [], originalOutcome = ''YES'',
      originalReasoning = ''Announced by the organiser'', newEvidenceCid = ''bafkreiexample'',
      newEvidenceDescription = ''A blog post'', r_submitter = ''user''\<rparr>"

text \<open>
  No tracked market has the status \<open>Resolved\<close>; a server state in which the status of one
  market is replaced; a server that tracks market \<open>m1\<close> with a given status; a trigger for
  that market; and a generation service whose Judge answers YES.
\<close>

definition never_resolved :: "server \<Rightarrow> bool" where
  "never_resolved srv = (\<forall>m \<in> ran (activeMarkets srv). m_status m \<noteq> Resolved)"

definition with_status :: "server \<Rightarrow> string \<Rightarrow> market_status \<Rightarrow> server" where
  "with_status srv mid status' =
     (case activeMarkets srv mid of
        None \<Rightarrow> srv
      | Some m \<Rightarrow> srv\<lparr>activeMarkets := (activeMarkets srv)(mid \<mapsto> m\<lparr>m_status := status'\<rparr>)\<rparr>)"

definition tracking :: "market_status \<Rightarrow> server" where
  "tracking status' =
     \<lparr>logHistory = [],
      activeMarkets = [''m1'' \<mapsto> \<lparr>m_question = ''Did event X occur?'', tweetUrl = Some [],
         m_status = status', m_logs = [], createdAt = Some 0, m_evidence = []\<rparr>]\<rparr>"

definition trigger :: ResolveRequest where
  "trigger = \<lparr>req_marketId = ''m1'', req_question = ''Did event X occur?'', req_marketPda = [],
              req_evidenceUrls = []\<rparr>"

definition yes_reply :: string where
  \<open>yes_reply = ''{"decision": "YES", "reasoning": "confirmed", "confidence": 90, "key_evidence": "official record"}''\<close>

definition yes_json :: json where
  "yes_json = JObj [(''decision'', JStr ''YES''), (''reasoning'', JStr ''confirmed''),
                    (''confidence'', JNum 90), (''key_evidence'', JStr ''official record'')]"

definition yes_generation :: generation where
  "yes_generation = \<lparr>research_gen = (\<lambda>k. Inl ''Failed to generate content''),
      judge_gen = (\<lambda>k. Inr yes_reply), jsonParse = reply_parser [(yes_reply, yes_json)]\<rparr>"

text \<open>A generation service that fails on every call.\<close>

definition silent_generation :: generation where
  "silent_generation = \<lparr>research_gen = (\<lambda>k. Inl ''Failed to generate content''),
      judge_gen = (\<lambda>k. Inl ''Failed to generate content''), jsonParse = reply_parser []\<rparr>"

text \<open>A reply of the Judge's generation call whose decision is none of the three asked for.\<close>

definition maybe_reply :: string where
  \<open>maybe_reply = ''{"decision": "maybe", "reasoning": "unclear", "confidence": 40, "key_evidence": "none"}''\<close>

definition maybe_json :: json where
  "maybe_json = JObj [(''decision'', JStr ''maybe''), (''reasoning'', JStr ''unclear''),
                      (''confidence'', JNum 40), (''key_evidence'', JStr ''none'')]"

definition demo_bundle :: TranscriptBundle where
  "demo_bundle = \<lparr>t_marketId = ''m1'', t_marketPda = [], t_question = ''Did event X occur?'',
      t_facts = [], t_decision = ''YES'', t_reasoning = JStr [], agentLogs = [], evidence = [],
      t_timestamp = 0, version = ''1.0.0''\<rparr>"

section \<open>Properties of the generation client\<close>

lemma attempts_done: "\<not> a < r \<Longrightarrow> attempts f r a = (Inl ''Failed to generate content'', [])"
  by (subst attempts.simps) simp

lemma attempts_limited:
  "a < r \<Longrightarrow> try_body (f a) = RateLimited \<Longrightarrow>
   attempts f r a = (fst (attempts f r (Suc a)), Fetch # Sleep 10000 # snd (attempts f r (Suc a)))"
  by (subst attempts.simps) (simp add: case_prod_unfold Let_def)

lemma attempts_returned:
  "a < r \<Longrightarrow> try_body (f a) = Returned t \<Longrightarrow> attempts f r a = (Inr t, [Fetch])"
  by (subst attempts.simps) simp

lemma attempts_thrown_last:
  "a < r \<Longrightarrow> try_body (f a) = Thrown e \<Longrightarrow> Suc a = r \<Longrightarrow> attempts f r a = (Inl e, [Fetch])"
  by (subst attempts.simps) auto

lemma attempts_thrown:
  "a < r \<Longrightarrow> try_body (f a) = Thrown e \<Longrightarrow> Suc a \<noteq> r \<Longrightarrow>
   attempts f r a = (fst (attempts f r (Suc a)), Fetch # Sleep 2000 # snd (attempts f r (Suc a)))"
  by (subst attempts.simps) (auto simp add: case_prod_unfold Let_def)

lemma retry_trace_step:
  "a < n \<Longrightarrow> retry_trace f a n = Fetch # Sleep (backoff (try_body (f a))) # retry_trace f (Suc a) n"
  by (simp add: retry_trace_def upt_conv_Cons)

lemma retry_trace_empty: "retry_trace f a a = []"
  by (simp add: retry_trace_def)

lemma fetches_append: "fetches (xs @ ys) = fetches xs + fetches ys"
  by (simp add: fetches_def)

lemma fetches_retry_trace: "fetches (retry_trace f a n) = n - a"
proof (induction "n - a" arbitrary: a)
  case 0
  then show ?case by (simp add: retry_trace_def fetches_def)
next
  case (Suc k)
  then have "a < n" "k = n - Suc a" by arith+
  with Suc.hyps(1)[of "Suc a"] show ?case
    by (simp add: retry_trace_step fetches_def)
qed

lemma fetches_Cons:
  "fetches (Fetch # xs) = Suc (fetches xs)" "fetches (Sleep n # xs) = fetches xs" "fetches [] = 0"
  by (simp_all add: fetches_def)

lemma fetches_last_failure: "fetches (last_failure x) = 1"
  by (cases x) (simp_all add: last_failure_def fetches_def)

lemma try_body_quota: "try_body quota_exceeded = RateLimited"
  by (simp add: try_body_def quota_exceeded_def)

lemma try_body_answer: "try_body (answer t) = Returned t"
  by (simp add: try_body_def answer_def ok_def)

lemma try_body_throw: "try_body (Inl e) = Thrown e"
  by (simp add: try_body_def)

text \<open>A run of the loop that returns: the first successful attempt decides.\<close>

lemma attempts_success:
  "attempts f r a = (Inr t, tr) \<Longrightarrow>
   \<exists>i. a \<le> i \<and> i < r \<and> try_body (f i) = Returned t \<and>
       (\<forall>j. a \<le> j \<and> j < i \<longrightarrow> \<not> succeeded (try_body (f j))) \<and>
       tr = retry_trace f a i @ [Fetch]"
proof (induction f r a arbitrary: tr rule: attempts.induct)
  case (1 f r a)
  have lt: "a < r" using "1.prems" by (cases "a < r") (simp_all add: attempts_done)
  show ?case
  proof (cases "try_body (f a)")
    case (Returned t')
    with lt "1.prems" have "t' = t" "tr = [Fetch]" by (simp_all add: attempts_returned)
    with Returned lt show ?thesis
      by (intro exI[of _ a]) (auto simp add: retry_trace_empty)
  next
    case RateLimited
    from lt RateLimited "1.prems" obtain tr' where
      rec: "attempts f r (Suc a) = (Inr t, tr')" and tr: "tr = Fetch # Sleep 10000 # tr'"
      by (cases "attempts f r (Suc a)") (simp add: attempts_limited)
    from "1.IH"(1)[OF lt RateLimited] rec obtain i where
      i: "Suc a \<le> i" "i < r" "try_body (f i) = Returned t"
         "\<forall>j. Suc a \<le> j \<and> j < i \<longrightarrow> \<not> succeeded (try_body (f j))"
         "tr' = retry_trace f (Suc a) i @ [Fetch]"
      by auto
    have "\<forall>j. a \<le> j \<and> j < i \<longrightarrow> \<not> succeeded (try_body (f j))"
    proof (intro allI impI)
      fix j assume "a \<le> j \<and> j < i"
      then show "\<not> succeeded (try_body (f j))"
        using i(4) RateLimited by (cases "j = a") (auto simp: succeeded_def)
    qed
    moreover have "tr = retry_trace f a i @ [Fetch]"
      using i(1,5) tr RateLimited by (simp add: retry_trace_step backoff_def)
    ultimately show ?thesis using i(1,2,3) by (intro exI[of _ i]) simp
  next
    case (Thrown e)
    have ne: "Suc a \<noteq> r" using lt Thrown "1.prems" by (auto simp: attempts_thrown_last)
    from lt Thrown ne "1.prems" obtain tr' where
      rec: "attempts f r (Suc a) = (Inr t, tr')" and tr: "tr = Fetch # Sleep 2000 # tr'"
      by (cases "attempts f r (Suc a)") (simp add: attempts_thrown)
    have ne': "a \<noteq> r - 1" using ne lt by arith
    from "1.IH"(2)[OF lt Thrown ne'] rec obtain i where
      i: "Suc a \<le> i" "i < r" "try_body (f i) = Returned t"
         "\<forall>j. Suc a \<le> j \<and> j < i \<longrightarrow> \<not> succeeded (try_body (f j))"
         "tr' = retry_trace f (Suc a) i @ [Fetch]"
      by auto
    have "\<forall>j. a \<le> j \<and> j < i \<longrightarrow> \<not> succeeded (try_body (f j))"
    proof (intro allI impI)
      fix j assume "a \<le> j \<and> j < i"
      then show "\<not> succeeded (try_body (f j))"
        using i(4) Thrown by (cases "j = a") (auto simp: succeeded_def)
    qed
    moreover have "tr = retry_trace f a i @ [Fetch]"
      using i(1,5) tr Thrown by (simp add: retry_trace_step backoff_def)
    ultimately show ?thesis using i(1,2,3) by (intro exI[of _ i]) simp
  qed
qed

text \<open>A run of the loop that raises: every attempt up to the bound failed.\<close>

lemma attempts_failure:
  "attempts f r a = (Inl e, tr) \<Longrightarrow> a < r \<Longrightarrow>
   (\<forall>j. a \<le> j \<and> j < r \<longrightarrow> \<not> succeeded (try_body (f j))) \<and>
   tr = retry_trace f a (r - 1) @ last_failure (try_body (f (r - 1))) \<and>
   e = raised (try_body (f (r - 1)))"
proof (induction f r a arbitrary: tr rule: attempts.induct)
  case (1 f r a)
  note lt = \<open>a < r\<close>
  show ?case
  proof (cases "Suc a = r")
    case True
    then have ra: "r - Suc 0 = a" by simp
    have only: "\<And>j. a \<le> j \<and> j < r \<Longrightarrow> j = a" using True by arith
    show ?thesis
    proof (cases "try_body (f a)")
      case (Returned t')
      with lt "1.prems" show ?thesis by (simp add: attempts_returned)
    next
      case RateLimited
      with lt True "1.prems"(1) have "e = ''Failed to generate content''" "tr = [Fetch, Sleep 10000]"
        by (simp_all add: attempts_limited attempts_done)
      moreover have "\<not> succeeded (try_body (f a))" using RateLimited by (simp add: succeeded_def)
      then have "\<forall>j. a \<le> j \<and> j < r \<longrightarrow> \<not> succeeded (try_body (f j))" using only by blast
      ultimately show ?thesis using RateLimited
        by (simp add: ra retry_trace_empty last_failure_def raised_def)
    next
      case (Thrown e')
      with lt True "1.prems"(1) have "e = e'" "tr = [Fetch]"
        by (simp_all add: attempts_thrown_last)
      moreover have "\<not> succeeded (try_body (f a))" using Thrown by (simp add: succeeded_def)
      then have "\<forall>j. a \<le> j \<and> j < r \<longrightarrow> \<not> succeeded (try_body (f j))" using only by blast
      ultimately show ?thesis using Thrown
        by (simp add: ra retry_trace_empty last_failure_def raised_def)
    qed
  next
    case False
    then have lt': "Suc a < r" and ne': "a \<noteq> r - 1" and lt1: "a < r - 1" using lt by arith+
    show ?thesis
    proof (cases "try_body (f a)")
      case (Returned t')
      with lt "1.prems" show ?thesis by (simp add: attempts_returned)
    next
      case RateLimited
      from lt RateLimited "1.prems"(1) obtain tr' where
        rec: "attempts f r (Suc a) = (Inl e, tr')" and tr: "tr = Fetch # Sleep 10000 # tr'"
        by (cases "attempts f r (Suc a)") (simp add: attempts_limited)
      from "1.IH"(1)[OF lt RateLimited] rec lt' have
        ih: "\<forall>j. Suc a \<le> j \<and> j < r \<longrightarrow> \<not> succeeded (try_body (f j))"
            "tr' = retry_trace f (Suc a) (r - 1) @ last_failure (try_body (f (r - 1)))"
            "e = raised (try_body (f (r - 1)))"
        by auto
      have "\<forall>j. a \<le> j \<and> j < r \<longrightarrow> \<not> succeeded (try_body (f j))"
      proof (intro allI impI)
        fix j assume "a \<le> j \<and> j < r"
        then show "\<not> succeeded (try_body (f j))"
          using ih(1) RateLimited by (cases "j = a") (auto simp: succeeded_def)
      qed
      moreover have "tr = retry_trace f a (r - 1) @ last_failure (try_body (f (r - 1)))"
        using ih(2) tr RateLimited lt1 by (simp add: retry_trace_step backoff_def)
      ultimately show ?thesis using ih(3) by simp
    next
      case (Thrown e')
      from lt Thrown False "1.prems"(1) obtain tr' where
        rec: "attempts f r (Suc a) = (Inl e, tr')" and tr: "tr = Fetch # Sleep 2000 # tr'"
        by (cases "attempts f r (Suc a)") (simp add: attempts_thrown)
      from "1.IH"(2)[OF lt Thrown ne'] rec lt' have
        ih: "\<forall>j. Suc a \<le> j \<and> j < r \<longrightarrow> \<not> succeeded (try_body (f j))"
            "tr' = retry_trace f (Suc a) (r - 1) @ last_failure (try_body (f (r - 1)))"
            "e = raised (try_body (f (r - 1)))"
        by auto
      have "\<forall>j. a \<le> j \<and> j < r \<longrightarrow> \<not> succeeded (try_body (f j))"
      proof (intro allI impI)
        fix j assume "a \<le> j \<and> j < r"
        then show "\<not> succeeded (try_body (f j))"
          using ih(1) Thrown by (cases "j = a") (auto simp: succeeded_def)
      qed
      moreover have "tr = retry_trace f a (r - 1) @ last_failure (try_body (f (r - 1)))"
        using ih(2) tr Thrown lt1 by (simp add: retry_trace_step backoff_def)
      ultimately show ?thesis using ih(3) by simp
    qed
  qed
qed

text \<open>
  Claim C7, as the code has it. One call of the generation client sleeps 4 seconds once,
  before its first request. It then makes at most \<open>retries\<close> requests (3 by default). A
  request answered with status 429 is followed by a sleep of 10 seconds, any other failed
  request but the last by a sleep of 2 seconds, and each of them, the 429 answers included,
  uses up one of the \<open>retries\<close> attempts. The client returns the text of the first request
  that succeeds. It raises only when all \<open>retries\<close> requests failed: the error of the last
  request, or \<open>Failed to generate content\<close> when the last answer was a 429. An empty
  candidate list is a failure like any other and is retried.
\<close>

theorem generateContent_attempt_budget:
  assumes "0 < retries" and "generateContent fetch retries = (res, tr)"
  shows "fetches tr \<le> retries \<and>
     (case res of
        Inr t \<Rightarrow>
          (\<exists>i<retries. try_body (fetch i) = Returned t \<and>
              (\<forall>j<i. \<not> succeeded (try_body (fetch j))) \<and>
              tr = Sleep 4000 # retry_trace fetch 0 i @ [Fetch])
      | Inl e \<Rightarrow>
          (\<forall>j<retries. \<not> succeeded (try_body (fetch j))) \<and>
          fetches tr = retries \<and>
          tr = Sleep 4000 # retry_trace fetch 0 (retries - 1) @ last_failure (try_body (fetch (retries - 1))) \<and>
          e = raised (try_body (fetch (retries - 1))))"
proof -
  obtain tr' where run: "attempts fetch retries 0 = (res, tr')" and tr: "tr = Sleep 4000 # tr'"
    using assms(2) by (cases "attempts fetch retries 0") (simp add: generateContent_def)
  show ?thesis
  proof (cases res)
    case (Inr t)
    from attempts_success[OF run[unfolded Inr]] obtain i where
      i: "i < retries" "try_body (fetch i) = Returned t"
         "\<forall>j. 0 \<le> j \<and> j < i \<longrightarrow> \<not> succeeded (try_body (fetch j))"
         "tr' = retry_trace fetch 0 i @ [Fetch]"
      by auto
    have "fetches tr = Suc i"
      using i(4) tr by (simp add: fetches_append fetches_retry_trace fetches_Cons)
    with i Inr tr show ?thesis by auto
  next
    case (Inl e)
    from attempts_failure[OF run[unfolded Inl] assms(1)] have
      f: "\<forall>j. 0 \<le> j \<and> j < retries \<longrightarrow> \<not> succeeded (try_body (fetch j))"
         "tr' = retry_trace fetch 0 (retries - 1) @ last_failure (try_body (fetch (retries - 1)))"
         "e = raised (try_body (fetch (retries - 1)))"
      by auto
    have "fetches tr = retries"
      using f(2) tr assms(1)
      by (simp add: fetches_append fetches_retry_trace fetches_last_failure fetches_Cons)
    with f Inl tr show ?thesis by auto
  qed
qed

text \<open>
  The theorem at a script of three answers: a 429, a network error, then a text. The text is
  returned after three requests.
\<close>

theorem generateContent_attempt_budget_witness:
  "(0::nat) < 3 \<and>
   generateContent (scripted [quota_exceeded, Inl ''ECONNRESET'', answer ''ok'']) 3
     = (Inr ''ok'', [Sleep 4000, Fetch, Sleep 10000, Fetch, Sleep 2000, Fetch]) \<and>
   fetches [Sleep 4000, Fetch, Sleep 10000, Fetch, Sleep 2000, Fetch] \<le> 3"
proof -
  have h1: "(0::nat) < 3" by simp
  have h2: "generateContent (scripted [quota_exceeded, Inl ''ECONNRESET'', answer ''ok'']) 3
     = (Inr ''ok'', [Sleep 4000, Fetch, Sleep 10000, Fetch, Sleep 2000, Fetch])"
    by (simp add: generateContent_def attempts.simps[of _ 3] scripted_def try_body_quota
        try_body_answer try_body_throw)
  from generateContent_attempt_budget[OF h1 h2] h1 h2 show ?thesis by (simp add: fetches_Cons)
qed

text \<open>
  Claim C7 as stated fails. The service answers 429 three times and would answer the fourth
  request with a text. The three 429 answers use up the three attempts: the client raises
  after the third, although no request failed for another reason, and the fourth request is
  never made.
\<close>

theorem generateContent_quota_counterexample:
  "generateContent (scripted [quota_exceeded, quota_exceeded, quota_exceeded, answer ''YES'']) 3
     = (Inl ''Failed to generate content'',
        [Sleep 4000, Fetch, Sleep 10000, Fetch, Sleep 10000, Fetch, Sleep 10000]) \<and>
   try_body (scripted [quota_exceeded, quota_exceeded, quota_exceeded, answer ''YES''] 0) = RateLimited \<and>
   try_body (scripted [quota_exceeded, quota_exceeded, quota_exceeded, answer ''YES''] 1) = RateLimited \<and>
   try_body (scripted [quota_exceeded, quota_exceeded, quota_exceeded, answer ''YES''] 2) = RateLimited \<and>
   try_body (scripted [quota_exceeded, quota_exceeded, quota_exceeded, answer ''YES''] 3) = Returned ''YES''"
  by (simp add: generateContent_def attempts.simps[of _ 3] scripted_def try_body_quota try_body_answer)


section \<open>Properties of the reward distribution\<close>

lemma distribute_loop_calls:
  "snd (distribute_loop c pda k ws d f) =
     concat (map (\<lambda>w. [DistributeReward pda (user w) (2 * amount w), Delay 500]) ws)"
  by (induction ws arbitrary: k d f) (simp_all add: Let_def case_prod_unfold)

lemma distribute_loop_counts:
  "fst (distribute_loop c pda k ws d f) =
     (d + length (filter (\<lambda>(i, w). success (distributeRewardToWinner c i pda (user w) (2 * amount w))) (enumerate k ws)),
      f + length (filter (\<lambda>(i, w). \<not> success (distributeRewardToWinner c i pda (user w) (2 * amount w))) (enumerate k ws)))"
  by (induction ws arbitrary: k d f) (simp_all add: Let_def case_prod_unfold mult.commute)

lemma disbursement_count:
  "length (filter is_disbursement (concat (map (\<lambda>w. [DistributeReward pda (user w) (2 * amount w), Delay 500]) ws)))
     = length ws"
  by (induction ws) (simp_all add: is_disbursement_def)

lemma filter_split_length:
  "length (filter P xs) + length (filter (\<lambda>x. \<not> P x) xs) = length xs"
  by (induction xs) auto

lemma distributeAllRewards_trace:
  "snd (distributeAllRewards c pda outcome) =
     GetCredStakes pda #
     concat (map (\<lambda>w. [DistributeReward pda (user w) (2 * amount w), Delay 500])
       (filter (\<lambda>s. direction s = (outcome = 1)) (getCredStakesForMarket c pda)))"
proof (cases "getCredStakesForMarket c pda")
  case Nil
  then show ?thesis by (simp add: distributeAllRewards_def)
next
  case (Cons s ss)
  then show ?thesis
    using distribute_loop_calls[of c pda 0 "winningStakes (s # ss) outcome" 0 0]
    by (simp add: distributeAllRewards_def Let_def case_prod_unfold winningStakes_def)
qed

lemma scenario_D:
  "distributeAllRewards (ledger (Inr ''sig'') (Inr five_stakes) [1]) (PublicKey ''pda-m1'') 1
    = (\<lparr>distributed = 2, failed = 1, total = 3\<rparr>,
       [GetCredStakes (PublicKey ''pda-m1''),
        DistributeReward (PublicKey ''pda-m1'') (PublicKey ''alice'') 10, Delay 500,
        DistributeReward (PublicKey ''pda-m1'') (PublicKey ''carol'') 2, Delay 500,
        DistributeReward (PublicKey ''pda-m1'') (PublicKey ''erin'') 20, Delay 500])"
  by (simp add: distributeAllRewards_def getCredStakesForMarket_def query_stakes_def ledger_def
      five_stakes_def stake_of_def winningStakes_def distributeRewardToWinner_def tx_ok_def tx_failed_def)

text \<open>
  Claim C4. For every stake snapshot (what \<open>getCredStakesForMarket\<close> returns) and every
  outcome, \<open>distributeAllRewards\<close> first queries the stakes and then, for exactly the stakes
  whose direction equals \<open>outcome = 1\<close> (Yes won) and in the order of the snapshot, issues
  one disbursement call of twice the staked amount, each call followed by the fixed delay
  of 500 ms. Nothing else is called.
\<close>

theorem distributeAllRewards_calls:
  "snd (distributeAllRewards c pda outcome) =
     GetCredStakes pda #
     concat (map (\<lambda>w. [DistributeReward pda (user w) (2 * amount w), Delay 500])
       (filter (\<lambda>s. direction s = (outcome = 1)) (getCredStakesForMarket c pda)))"
  by (rule distributeAllRewards_trace)

text \<open>
  The theorem on five stakes, three of them on Yes, with outcome Yes: the three Yes stakes of
  5, 1 and 10 are paid 10, 2 and 20.
\<close>

theorem distributeAllRewards_calls_witness:
  "snd (distributeAllRewards (ledger (Inr ''sig'') (Inr five_stakes) []) (PublicKey ''pda-m1'') 1) =
     [GetCredStakes (PublicKey ''pda-m1''),
      DistributeReward (PublicKey ''pda-m1'') (PublicKey ''alice'') 10, Delay 500,
      DistributeReward (PublicKey ''pda-m1'') (PublicKey ''carol'') 2, Delay 500,
      DistributeReward (PublicKey ''pda-m1'') (PublicKey ''erin'') 20, Delay 500]"
  using distributeAllRewards_calls[of "ledger (Inr ''sig'') (Inr five_stakes) []" "PublicKey ''pda-m1''" 1]
  by (simp add: getCredStakesForMarket_def query_stakes_def ledger_def five_stakes_def stake_of_def)

text \<open>
  Claim C5. After every run of \<open>distributeAllRewards\<close> the reported counts satisfy
  \<open>distributed + failed = total\<close>, \<open>total\<close> is the number of winning stakes, one
  disbursement call was issued for each winning stake whatever the results of the calls
  before it, and \<open>distributed\<close> counts the calls that reported success.
\<close>

theorem distributeAllRewards_counts:
  assumes "distributeAllRewards c pda outcome = (res, tr)"
  shows "distributed res + failed res = total res \<and>
     total res = length (filter (\<lambda>s. direction s = (outcome = 1)) (getCredStakesForMarket c pda)) \<and>
     length (filter is_disbursement tr) = total res \<and>
     distributed res =
       length (filter (\<lambda>(i, w). success (distributeRewardToWinner c i pda (user w) (2 * amount w)))
         (enumerate 0 (filter (\<lambda>s. direction s = (outcome = 1)) (getCredStakesForMarket c pda))))"
proof (cases "getCredStakesForMarket c pda")
  case Nil
  with assms show ?thesis by (auto simp add: distributeAllRewards_def is_disbursement_def)
next
  case (Cons s ss)
  let ?ws = "filter (\<lambda>s. direction s = (outcome = 1)) (s # ss)"
  let ?P = "\<lambda>(i, w). success (distributeRewardToWinner c i pda (user w) (2 * amount w))"
  have res: "res = \<lparr>distributed = fst (fst (distribute_loop c pda 0 ?ws 0 0)),
                    failed = snd (fst (distribute_loop c pda 0 ?ws 0 0)), total = length ?ws\<rparr>"
    and tr: "tr = GetCredStakes pda # snd (distribute_loop c pda 0 ?ws 0 0)"
    using assms Cons by (auto simp add: distributeAllRewards_def Let_def case_prod_unfold winningStakes_def)
  have split: "length (filter ?P (enumerate 0 ?ws)) + length (filter (\<lambda>x. \<not> ?P x) (enumerate 0 ?ws)) = length ?ws"
    using filter_split_length[of ?P "enumerate 0 ?ws"] by simp
  have neg: "(\<lambda>x. \<not> ?P x) = (\<lambda>(i, w). \<not> success (distributeRewardToWinner c i pda (user w) (2 * amount w)))"
    by auto
  have "distributed res + failed res = total res"
    using split unfolding res neg by (simp add: distribute_loop_counts)
  moreover have "length (filter is_disbursement tr) = total res"
    unfolding tr res by (simp add: distribute_loop_calls disbursement_count is_disbursement_def)
  moreover have "distributed res = length (filter ?P (enumerate 0 ?ws))"
    unfolding res by (simp add: distribute_loop_counts)
  ultimately show ?thesis using Cons res by simp
qed

text \<open>
  The theorem on the five stakes with outcome Yes, where the second disbursement fails: the
  result is 2 distributed, 1 failed, 3 in total, and the third winner is still paid.
\<close>

theorem distributeAllRewards_counts_witness:
  "distributeAllRewards (ledger (Inr ''sig'') (Inr five_stakes) [1]) (PublicKey ''pda-m1'') 1
    = (\<lparr>distributed = 2, failed = 1, total = 3\<rparr>,
       [GetCredStakes (PublicKey ''pda-m1''),
        DistributeReward (PublicKey ''pda-m1'') (PublicKey ''alice'') 10, Delay 500,
        DistributeReward (PublicKey ''pda-m1'') (PublicKey ''carol'') 2, Delay 500,
        DistributeReward (PublicKey ''pda-m1'') (PublicKey ''erin'') 20, Delay 500]) \<and>
   distributed \<lparr>distributed = 2, failed = 1, total = 3\<rparr> + failed \<lparr>distributed = 2, failed = 1, total = 3\<rparr>
     = total \<lparr>distributed = 2, failed = 1, total = 3\<rparr> \<and>
   length (filter is_disbursement
       [GetCredStakes (PublicKey ''pda-m1''),
        DistributeReward (PublicKey ''pda-m1'') (PublicKey ''alice'') 10, Delay 500,
        DistributeReward (PublicKey ''pda-m1'') (PublicKey ''carol'') 2, Delay 500,
        DistributeReward (PublicKey ''pda-m1'') (PublicKey ''erin'') 20, Delay 500]) = 3"
  using distributeAllRewards_counts[OF scenario_D] scenario_D by simp

text \<open>
  Claim C10. When the stake query throws inside \<open>getCredStakesForMarket\<close> (the program is
  not initialised, or the account query fails), the method returns the empty list;
  \<open>distributeAllRewards\<close> then reports 0 distributed, 0 failed, 0 in total and issues no
  disbursement call, exactly as it does on any ledger whose query succeeds with no stake.
\<close>

theorem stake_query_failure_is_silent:
  assumes "query_stakes c pda = Inl e"
  shows "getCredStakesForMarket c pda = [] \<and>
     distributeAllRewards c pda outcome = (\<lparr>distributed = 0, failed = 0, total = 0\<rparr>, [GetCredStakes pda]) \<and>
     (\<forall>c'. query_stakes c' pda = Inr [] \<longrightarrow>
        distributeAllRewards c' pda outcome = distributeAllRewards c pda outcome)"
  using assms by (simp add: getCredStakesForMarket_def distributeAllRewards_def)

text \<open>
  The theorem on a ledger whose account query fails although five stakes exist, compared
  with a ledger that has no stake.
\<close>

theorem stake_query_failure_is_silent_witness:
  "query_stakes (ledger (Inr ''sig'') (Inl ''429 Too Many Requests'') []) (PublicKey ''pda-m1'')
     = Inl ''429 Too Many Requests'' \<and>
   distributeAllRewards (ledger (Inr ''sig'') (Inl ''429 Too Many Requests'') []) (PublicKey ''pda-m1'') 1
     = (\<lparr>distributed = 0, failed = 0, total = 0\<rparr>, [GetCredStakes (PublicKey ''pda-m1'')]) \<and>
   distributeAllRewards (ledger (Inr ''sig'') (Inr []) []) (PublicKey ''pda-m1'') 1
     = distributeAllRewards (ledger (Inr ''sig'') (Inl ''429 Too Many Requests'') []) (PublicKey ''pda-m1'') 1"
proof -
  have h: "query_stakes (ledger (Inr ''sig'') (Inl ''429 Too Many Requests'') []) (PublicKey ''pda-m1'')
     = Inl ''429 Too Many Requests''"
    by (simp add: query_stakes_def ledger_def)
  have e: "query_stakes (ledger (Inr ''sig'') (Inr []) []) (PublicKey ''pda-m1'') = Inr []"
    by (simp add: query_stakes_def ledger_def)
  from stake_query_failure_is_silent[OF h, of 1] h e show ?thesis by blast
qed


section \<open>Properties of the Research and Judge loop\<close>

lemma judge_increments: "iterations (apply_update s (judgeNode jp gen s)) = iterations s + 1"
  by (simp add: apply_update_def judgeNode_def coalesce_def no_update_def split: sum.splits prod.splits)

lemma researcher_keeps_iterations: "iterations (apply_update s (researcherNode jp gen s)) = iterations s"
  by (simp add: apply_update_def researcherNode_def coalesce_def no_update_def split: sum.splits prod.splits)

lemma pass_increments: "iterations (research_then_judge g k s) = iterations s + 1"
  by (simp add: research_then_judge_def Let_def judge_increments researcher_keeps_iterations)

lemma loop_stop:
  "shouldContinue (research_then_judge g k s) = executor \<Longrightarrow>
   research_judge_loop g k s = (research_then_judge g k s, 1)"
  by (subst research_judge_loop.simps) (simp add: Let_def)

lemma loop_again:
  "shouldContinue (research_then_judge g k s) = researcher \<Longrightarrow>
   research_judge_loop g k s =
     (fst (research_judge_loop g (k + 1) (research_then_judge g k s)),
      snd (research_judge_loop g (k + 1) (research_then_judge g k s)) + 1)"
  by (subst research_judge_loop.simps) (simp add: Let_def case_prod_unfold)

text \<open>
  From any state the loop ends at a state the router sends to the executor; each pass adds
  one to the iteration count.
\<close>

lemma loop_bound:
  "shouldContinue (fst (research_judge_loop g k s)) = executor \<and>
   iterations (fst (research_judge_loop g k s)) = iterations s + int (snd (research_judge_loop g k s)) \<and>
   1 \<le> snd (research_judge_loop g k s) \<and>
   snd (research_judge_loop g k s) \<le> max 1 (nat (3 - iterations s))"
proof (induction g k s rule: research_judge_loop.induct)
  case (1 g k s)
  let ?s2 = "research_then_judge g k s"
  show ?case
  proof (cases "shouldContinue ?s2")
    case executor
    then show ?thesis by (simp add: loop_stop pass_increments)
  next
    case researcher
    then have lt: "iterations ?s2 < 3" by (simp add: shouldContinue_def split: if_splits)
    from "1.IH"[OF refl researcher] have ih:
      "shouldContinue (fst (research_judge_loop g (k + 1) ?s2)) = executor"
      "iterations (fst (research_judge_loop g (k + 1) ?s2)) = iterations ?s2 + int (snd (research_judge_loop g (k + 1) ?s2))"
      "snd (research_judge_loop g (k + 1) ?s2) \<le> max 1 (nat (3 - iterations ?s2))"
      by simp_all
    from lt ih show ?thesis
      by (simp add: loop_again[OF researcher] pass_increments)
  qed
qed

text \<open>
  Claim C1. For every agent state the router answers \<open>researcher\<close> exactly when the decision
  is \<^verbatim>\<open>'UNCERTAIN'\<close> and the iteration count is below 3, and \<open>executor\<close> otherwise.
  Every Judge pass, whether its generation succeeds or not, adds exactly 1 to the iteration
  count. Hence a run that starts with a count of 0 (or any count that is not negative), on
  any generation outcomes and so whatever the decisions are, reaches the executor after at
  least one and at most 3 Judge passes.
\<close>

theorem judge_loop_bounded:
  "(shouldContinue s = researcher \<longleftrightarrow> decision s = Some ''UNCERTAIN'' \<and> iterations s < 3) \<and>
   (shouldContinue s = executor \<longleftrightarrow> \<not> (decision s = Some ''UNCERTAIN'' \<and> iterations s < 3)) \<and>
   iterations (apply_update s (judgeNode jp gen s)) = iterations s + 1 \<and>
   (0 \<le> iterations s \<longrightarrow>
      shouldContinue (fst (research_judge_loop g k s)) = executor \<and>
      1 \<le> snd (research_judge_loop g k s) \<and>
      snd (research_judge_loop g k s) \<le> 3 \<and>
      iterations (fst (research_judge_loop g k s)) = iterations s + int (snd (research_judge_loop g k s)))"
proof -
  have router: "(shouldContinue s = researcher \<longleftrightarrow> decision s = Some ''UNCERTAIN'' \<and> iterations s < 3)"
    and router': "(shouldContinue s = executor \<longleftrightarrow> \<not> (decision s = Some ''UNCERTAIN'' \<and> iterations s < 3))"
    by (simp_all add: shouldContinue_def)
  have "snd (research_judge_loop g k s) \<le> 3" if "0 \<le> iterations s"
  proof -
    have "max 1 (nat (3 - iterations s)) \<le> 3" using that by arith
    with loop_bound[of g k s] show ?thesis by linarith
  qed
  with router router' judge_increments[of s jp gen] loop_bound[of g k s] show ?thesis by blast
qed

text \<open>
  The theorem on a run that starts at count 0 with a generation service that always fails:
  every verdict is UNCERTAIN, and the executor is reached after exactly 3 Judge passes.
\<close>

theorem judge_loop_bounded_witness:
  "0 \<le> iterations (state_with None 0 []) \<and>
   snd (research_judge_loop silent_generation 0 (state_with None 0 [])) = 3 \<and>
   shouldContinue (fst (research_judge_loop silent_generation 0 (state_with None 0 []))) = executor"
proof -
  have h: "0 \<le> iterations (state_with None 0 [])" by (simp add: state_with_def)
  have n: "snd (research_judge_loop silent_generation 0 (state_with None 0 [])) = 3"
    by (simp add: research_judge_loop.simps[of _ 0] research_judge_loop.simps[of _ "Suc 0"]
        research_judge_loop.simps[of _ "Suc (Suc 0)"] research_then_judge_def silent_generation_def
        state_with_def apply_update_def judgeNode_def researcherNode_def coalesce_def no_update_def
        and_then_def shouldContinue_def Let_def)
  from judge_loop_bounded[where s = "state_with None 0 []" and g = silent_generation and k = 0
      and jp = "reply_parser []" and gen = "Inl []"] h n
  show ?thesis by blast
qed

section \<open>Properties of the Judge node\<close>

lemma clean_maybe: "cleanJsonString maybe_reply = maybe_reply"
  by (simp add: maybe_reply_def cleanJsonString_def trim_def is_space_def lastIndexOf_def substring_def)

text \<open>
  When the generation call raises, or its text does not parse, the verdict is UNCERTAIN.
\<close>

lemma judgeNode_fails_closed:
  assumes "gen = Inl e \<or> (\<exists>t e'. gen = Inr t \<and> parse_reply jp t = Inl e')"
  shows "decision (apply_update s (judgeNode jp gen s)) = Some ''UNCERTAIN''"
  using assms
  by (auto simp add: judgeNode_def judge_body_def and_then_def apply_update_def no_update_def)

text \<open>The Judge always leaves some decision, and it is not the empty string.\<close>

lemma judgeNode_decides:
  "\<exists>d. decision (apply_update s (judgeNode jp gen s)) = Some d \<and> d \<noteq> []"
  by (auto simp add: judgeNode_def apply_update_def no_update_def judge_body_def and_then_def
      or_default_def Let_def split: sum.splits prod.splits option.splits)

text \<open>
  Claim C6 does not hold of the code. The Judge node upper-cases whatever string the parsed
  reply carries as \<open>decision\<close> and stores it without comparing it to the three verdicts.
  On the reply \<^verbatim>\<open>{"decision": "maybe", ...}\<close> the resulting decision is \<^verbatim>\<open>MAYBE\<close>,
  which is none of YES, NO and UNCERTAIN.
\<close>

theorem judgeNode_unchecked_decision:
  "decision (apply_update (state_with None 0 [])
      (judgeNode (reply_parser [(maybe_reply, maybe_json)]) (Inr maybe_reply) (state_with None 0 [])))
     = Some ''MAYBE''"
  by (simp add: judgeNode_def judge_body_def parse_reply_def clean_maybe reply_parser_def maybe_json_def
      and_then_def or_default_def toUpperCase_def upper_char_def apply_update_def no_update_def
      coalesce_def nullish_def state_with_def)

section \<open>Properties of transcript pinning\<close>

lemma substring_take: "substring s 0 n = take n s"
  by (cases "n \<le> length s") (simp_all add: substring_def min_def)

text \<open>
  Claim C8. \<open>pinTranscript\<close> never throws: it always returns a content identifier. When no
  client is configured, or the store's call throws, the identifier is the prefix
  \<^verbatim>\<open>bafkreig\<close> followed by the first 50 hexadecimal digits of the SHA-256 of the
  serialised bundle. It is a function of that serialised content alone: two failing pins of
  bundles with the same serialisation give the same identifier, and so the same 32-byte
  digest \<open>cidToBytes32\<close> of it, whatever the key and whatever the error of the store.
\<close>

theorem pinTranscript_never_throws:
  "(\<exists>cid. pinTranscript st b = Inr cid) \<and>
   ((\<not> getClient st \<or> isl (storeBlob st (stringify st b))) \<longrightarrow>
      pinTranscript st b = Inr (''bafkreig'' @ take 50 (hex (sha256 st (stringify st b)))) \<and>
      (\<forall>st' b'. (\<not> getClient st' \<or> isl (storeBlob st' (stringify st' b'))) \<and>
          sha256 st' = sha256 st \<and> stringify st' b' = stringify st b \<longrightarrow>
          pinTranscript st' b' = pinTranscript st b \<and>
          map_sum id (cidToBytes32 st') (pinTranscript st' b') = map_sum id (cidToBytes32 st) (pinTranscript st b)))"
  by (auto simp add: pinTranscript_def createMockCid_def substring_take cidToBytes32_def Let_def
      split: sum.splits)

text \<open>The theorem on a store without an API key.\<close>

theorem pinTranscript_never_throws_witness:
  "\<not> getClient unconfigured_store \<and>
   pinTranscript unconfigured_store demo_bundle
     = Inr (''bafkreig'' @ take 50 (hex (sha256 unconfigured_store (stringify unconfigured_store demo_bundle))))"
proof -
  have h: "\<not> getClient unconfigured_store" by (simp add: getClient_def unconfigured_store_def)
  from pinTranscript_never_throws[of unconfigured_store demo_bundle] h show ?thesis by blast
qed


section \<open>Properties of the Executor node\<close>

lemma last_addGlobalLog: "last (addGlobalLog h e) = e"
  by (cases h) (auto simp add: addGlobalLog_def Let_def)

lemma pinTranscript_Inr: "\<exists>tc. pinTranscript st b = Inr tc"
  by (auto simp add: pinTranscript_def Let_def split: sum.splits)

lemma pinNFTMetadata_Inr: "\<exists>tc. pinNFTMetadata st m = Inr tc"
  by (auto simp add: pinNFTMetadata_def split: sum.splits)

lemma reward_block_calls: "snd (reward_block c now s d h) = reward_calls c s d"
  by (simp add: reward_block_def reward_calls_def Let_def case_prod_unfold split: sum.splits)

lemma settle_shape:
  "\<exists>b m tc.
     pinTranscript st b = Inr tc \<and>
     (case market_address c s of
        Inl e \<Rightarrow> fst (settle st c now h0 s d) = Inl e \<and>
                 snd (snd (settle st c now h0 s d)) = [PinTranscript b, PinNFTMetadata m]
      | Inr pda \<Rightarrow>
          (if success (resolveMarket c (resolve_params st s d pda tc))
           then snd (snd (settle st c now h0 s d)) =
                  [PinTranscript b, PinNFTMetadata m, ResolveMarket (resolve_params st s d pda tc)] @ reward_calls c s d \<and>
                fst (settle st c now h0 s d) =
                  Inr (no_update\<lparr>u_ipfsTranscriptCid := Some tc,
                        u_transactionSignature :=
                          Some (or_default (signature (resolveMarket c (resolve_params st s d pda tc))) [])\<rparr>)
           else snd (snd (settle st c now h0 s d)) =
                  [PinTranscript b, PinNFTMetadata m, ResolveMarket (resolve_params st s d pda tc)] \<and>
                fst (settle st c now h0 s d) = Inr no_update \<and>
                last (fst (snd (settle st c now h0 s d))) =
                  entry ''Executor'' (''On-chain resolution failed: '' @
                     show_opt (tx_error (resolveMarket c (resolve_params st s d pda tc)))) now ''Negative''))"
proof -
  let ?b = "\<lparr>t_marketId = marketId s, t_marketPda = marketPda s, t_question = question s,
             t_facts = facts s, t_decision = d, t_reasoning = reasoning s,
             agentLogs = filter (\<lambda>l. timestamp l > now - 60000) h0,
             evidence = map (\<lambda>u. \<lparr>url = u, description = ''User submitted evidence'',
                                     submittedBy = ''user'', e_timestamp = now\<rparr>) (evidenceUrls s),
             t_timestamp = now, version = ''1.0.0''\<rparr>"
  obtain tc where tc: "pinTranscript st ?b = Inr tc" using pinTranscript_Inr by blast
  let ?m = "metadata_json st (marketId s) (question s) d tc now"
  obtain mc where mc: "pinNFTMetadata st ?m = Inr mc" using pinNFTMetadata_Inr by blast
  show ?thesis
    apply (rule exI[of _ ?b], rule exI[of _ ?m], rule exI[of _ tc])
    apply (simp add: tc)
    apply (cases "market_address c s")
     apply (simp_all add: settle_def Let_def tc mc resolve_params_def reward_block_calls
        case_prod_unfold last_addGlobalLog)
    done
qed


lemma reward_calls_no_resolve: "ResolveMarket p \<notin> set (reward_calls c s d)"
  by (auto simp add: reward_calls_def distributeAllRewards_trace split: sum.splits)

lemma reward_calls_query:
  "list_ex is_stake_query (reward_calls c s d) = (\<not> isl (findMarketPda c (marketId s)))"
  by (auto simp add: reward_calls_def distributeAllRewards_trace is_stake_query_def split: sum.splits)

lemma executorNode_unresolved:
  assumes "decision s \<noteq> Some ''YES''" and "decision s \<noteq> Some ''NO''"
  shows "executorNode st c now h s =
     (Inr no_update,
      addGlobalLog (addGlobalLog h (entry ''Executor''
          (''Processing resolution for market '' @ marketId s @ ''...'') now ''Neutral''))
        (entry ''Executor'' ''Market remains UNRESOLVED (decision uncertain)'' now ''Neutral''),
      [])"
  using assms by (simp add: executorNode_def Let_def split: option.splits)

lemma executorNode_settles:
  assumes "decision s = Some ''YES'' \<or> decision s = Some ''NO''"
  shows "executorNode st c now h s =
     settle st c now (addGlobalLog h (entry ''Executor''
          (''Processing resolution for market '' @ marketId s @ ''...'') now ''Neutral'')) s (the (decision s))"
  using assms by (auto simp add: executorNode_def Let_def split: option.splits)

lemma executorNode_resolve_count:
  assumes "decision s = Some ''YES'' \<or> decision s = Some ''NO''" and "\<not> isl (market_address c s)"
  shows "length (filter is_resolve (snd (snd (executorNode st c now h s)))) = 1"
proof -
  define h0 where "h0 = addGlobalLog h (entry ''Executor''
          (''Processing resolution for market '' @ marketId s @ ''...'') now ''Neutral'')"
  define d where "d = the (decision s)"
  have run: "executorNode st c now h s = settle st c now h0 s d"
    using executorNode_settles[OF assms(1), where st=st and c=c and now=now and h=h]
    by (simp add: h0_def d_def)
  from assms(2) obtain pda where pda: "market_address c s = Inr pda" by (cases "market_address c s") auto
  from settle_shape[where st=st and c=c and s=s and now=now and ?h0.0=h0 and d=d] pda
  obtain b m tc where
    "snd (snd (settle st c now h0 s d)) =
        [PinTranscript b, PinNFTMetadata m, ResolveMarket (resolve_params st s d pda tc)] @ reward_calls c s d \<or>
     snd (snd (settle st c now h0 s d)) =
        [PinTranscript b, PinNFTMetadata m, ResolveMarket (resolve_params st s d pda tc)]"
    by (auto split: if_splits)
  moreover have "filter is_resolve (reward_calls c s d) = []"
    using reward_calls_no_resolve[of _ c s d]
    by (auto simp add: filter_empty_conv is_resolve_def split: call.splits)
  ultimately show ?thesis unfolding run by (auto simp add: is_resolve_def)
qed

text \<open>
  Claim C3, as the code has it. In every execution of the Executor node:
  \<^item> a ledger resolve call is made only if the decision is YES or NO, and exactly one is made
    when the decision is YES or NO and the market address can be built (the given
    \<open>marketPda\<close> is a public key, or it is empty and the address derives from the market id);
  \<^item> the stake query and the disbursements are made only after a resolve call that reported
    success, and the stake query is made after every such call provided the market address
    derives from the market id;
  \<^item> when the resolve call reports failure, the last entry of the log is the Executor's
    failure message, nothing is returned, and neither a stake query nor a disbursement call
    is made;
  \<^item> when the decision is neither YES nor NO, no call at all is made: no pinning, no resolve,
    no disbursement.
\<close>

theorem executorNode_settlement:
  assumes "executorNode st c now h s = (r, h', tr)"
  shows
   "((\<exists>p. ResolveMarket p \<in> set tr) \<longrightarrow> decision s = Some ''YES'' \<or> decision s = Some ''NO'') \<and>
    ((decision s = Some ''YES'' \<or> decision s = Some ''NO'') \<and> \<not> isl (market_address c s) \<longrightarrow>
        length (filter is_resolve tr) = 1) \<and>
    (list_ex is_stake_query tr \<or> list_ex is_disbursement tr \<longrightarrow>
        (\<exists>p. ResolveMarket p \<in> set tr \<and> success (resolveMarket c p))) \<and>
    (\<forall>p. ResolveMarket p \<in> set tr \<and> success (resolveMarket c p) \<and> \<not> isl (findMarketPda c (marketId s)) \<longrightarrow>
        list_ex is_stake_query tr) \<and>
    (\<forall>p. ResolveMarket p \<in> set tr \<and> \<not> success (resolveMarket c p) \<longrightarrow>
        \<not> list_ex is_disbursement tr \<and> \<not> list_ex is_stake_query tr \<and> r = Inr no_update \<and>
        last h' = entry ''Executor''
                    (''On-chain resolution failed: '' @ show_opt (tx_error (resolveMarket c p))) now ''Negative'') \<and>
    (decision s \<noteq> Some ''YES'' \<and> decision s \<noteq> Some ''NO'' \<longrightarrow> tr = [] \<and> r = Inr no_update)"
proof (cases "decision s = Some ''YES'' \<or> decision s = Some ''NO''")
  case False
  with assms executorNode_unresolved[where s=s and st=st and c=c and now=now and h=h] show ?thesis by auto
next
  case True
  define h0 where "h0 = addGlobalLog h (entry ''Executor''
          (''Processing resolution for market '' @ marketId s @ ''...'') now ''Neutral'')"
  define d where "d = the (decision s)"
  have run: "settle st c now h0 s d = (r, h', tr)"
    using assms executorNode_settles[OF True, where st=st and c=c and now=now and h=h] by (simp add: h0_def d_def)
  from settle_shape[where st=st and c=c and s=s and now=now and ?h0.0=h0 and d=d] obtain b m tc where
    shape: "case market_address c s of
        Inl e \<Rightarrow> fst (settle st c now h0 s d) = Inl e \<and>
                 snd (snd (settle st c now h0 s d)) = [PinTranscript b, PinNFTMetadata m]
      | Inr pda \<Rightarrow>
          (if success (resolveMarket c (resolve_params st s d pda tc))
           then snd (snd (settle st c now h0 s d)) =
                  [PinTranscript b, PinNFTMetadata m, ResolveMarket (resolve_params st s d pda tc)] @ reward_calls c s d \<and>
                fst (settle st c now h0 s d) =
                  Inr (no_update\<lparr>u_ipfsTranscriptCid := Some tc,
                        u_transactionSignature :=
                          Some (or_default (signature (resolveMarket c (resolve_params st s d pda tc))) [])\<rparr>)
           else snd (snd (settle st c now h0 s d)) =
                  [PinTranscript b, PinNFTMetadata m, ResolveMarket (resolve_params st s d pda tc)] \<and>
                fst (settle st c now h0 s d) = Inr no_update \<and>
                last (fst (snd (settle st c now h0 s d))) =
                  entry ''Executor'' (''On-chain resolution failed: '' @
                     show_opt (tx_error (resolveMarket c (resolve_params st s d pda tc)))) now ''Negative'')"
    by blast
  show ?thesis
  proof (cases "market_address c s")
    case (Inl e)
    with shape run have "tr = [PinTranscript b, PinNFTMetadata m]" by simp
    with True Inl show ?thesis by (simp add: is_stake_query_def is_disbursement_def)
  next
    case (Inr pda)
    let ?p = "resolve_params st s d pda tc"
    show ?thesis
    proof (cases "success (resolveMarket c ?p)")
      case ok: True
      with shape run Inr have tr: "tr = [PinTranscript b, PinNFTMetadata m, ResolveMarket ?p] @ reward_calls c s d"
        by simp
      have mem: "\<And>p. ResolveMarket p \<in> set tr \<longleftrightarrow> p = ?p"
        using reward_calls_no_resolve[of _ c s d] by (auto simp add: tr)
      have one: "filter is_resolve tr = [ResolveMarket ?p]"
        using reward_calls_no_resolve[of _ c s d]
        by (auto simp add: tr is_resolve_def filter_empty_conv split: call.splits)
      have q: "list_ex is_stake_query tr = (\<not> isl (findMarketPda c (marketId s)))"
        by (simp add: tr reward_calls_query is_stake_query_def)
      from True Inr ok mem one q show ?thesis by auto
    next
      case bad: False
      with shape run Inr have tr: "tr = [PinTranscript b, PinNFTMetadata m, ResolveMarket ?p]"
        and r: "r = Inr no_update"
        and l: "last h' = entry ''Executor'' (''On-chain resolution failed: '' @
                     show_opt (tx_error (resolveMarket c ?p))) now ''Negative''"
        by simp_all
      from True Inr bad tr r l show ?thesis
        by (auto simp add: is_stake_query_def is_disbursement_def is_resolve_def)
    qed
  qed
qed


lemma resolveMarket_ledger: "resolveMarket (ledger (Inl e) stakes failing) p = tx_failed e"
  by (simp add: resolveMarket_def ledger_def)

lemma address_m1: "market_address (ledger rr stakes failing) (state_with d n []) = Inr (PublicKey ''pda-m1'')"
  by (simp add: market_address_def ledger_def state_with_def derive_pda_def)

lemma address_bad:
  "market_address (ledger rr stakes failing) (state_with d n ''marketAddress'') = Inl ''Invalid public key input''"
  by (simp add: market_address_def ledger_def state_with_def base58_key_def)

text \<open>
  The theorem where the ledger rejects the resolve call with \<open>AlreadyResolved\<close>: one
  resolve call, no disbursement.
\<close>

theorem executorNode_settlement_witness:
  "decision (state_with (Some ''YES'') 1 []) = Some ''YES'' \<and>
   \<not> isl (market_address (ledger (Inl ''AlreadyResolved'') (Inr five_stakes) []) (state_with (Some ''YES'') 1 [])) \<and>
   length (filter is_resolve (snd (snd (executorNode unconfigured_store
       (ledger (Inl ''AlreadyResolved'') (Inr five_stakes) []) 0 [] (state_with (Some ''YES'') 1 []))))) = 1 \<and>
   \<not> list_ex is_disbursement (snd (snd (executorNode unconfigured_store
       (ledger (Inl ''AlreadyResolved'') (Inr five_stakes) []) 0 [] (state_with (Some ''YES'') 1 []))))"
proof -
  let ?c = "ledger (Inl ''AlreadyResolved'') (Inr five_stakes) []"
  let ?s = "state_with (Some ''YES'') 1 []"
  obtain r h' tr where run: "executorNode unconfigured_store ?c 0 [] ?s = (r, h', tr)"
    by (cases "executorNode unconfigured_store ?c 0 [] ?s") auto
  have d: "decision ?s = Some ''YES''" by (simp add: state_with_def)
  have a: "\<not> isl (market_address ?c ?s)" by (simp add: address_m1)
  note t = executorNode_settlement[OF run]
  from t d a have one: "length (filter is_resolve tr) = 1" by blast
  then obtain e where "e \<in> set (filter is_resolve tr)"
    by (cases "filter is_resolve tr") auto
  then have mem: "e \<in> set tr" and res: "is_resolve e" by simp_all
  from res obtain p where "e = ResolveMarket p" by (cases e) (simp_all add: is_resolve_def)
  with mem have p: "ResolveMarket p \<in> set tr" by simp
  have "\<not> success (resolveMarket ?c p)" by (simp add: resolveMarket_ledger tx_failed_def)
  with t p have "\<not> list_ex is_disbursement tr" by blast
  with one d a run show ?thesis by simp
qed

text \<open>
  Claim C3 as stated fails. With decision YES and the \<open>marketPda\<close> \<^verbatim>\<open>marketAddress\<close>,
  which is base-58 text but too short for a public key, building the address throws after
  the two pins: the node throws and makes no resolve
  call although the decision is YES.
\<close>

theorem executorNode_address_counterexample:
  "decision (state_with (Some ''YES'') 1 ''marketAddress'') = Some ''YES'' \<and>
   fst (executorNode unconfigured_store (ledger (Inr ''sig'') (Inr five_stakes) []) 0 []
          (state_with (Some ''YES'') 1 ''marketAddress'')) = Inl ''Invalid public key input'' \<and>
   filter is_resolve (snd (snd (executorNode unconfigured_store (ledger (Inr ''sig'') (Inr five_stakes) []) 0 []
          (state_with (Some ''YES'') 1 ''marketAddress'')))) = []"
proof -
  let ?c = "ledger (Inr ''sig'') (Inr five_stakes) []"
  let ?s = "state_with (Some ''YES'') 1 ''marketAddress''"
  have d: "decision ?s = Some ''YES''" by (simp add: state_with_def)
  then have e: "executorNode unconfigured_store ?c 0 [] ?s =
     settle unconfigured_store ?c 0 (addGlobalLog [] (entry ''Executor''
          (''Processing resolution for market '' @ marketId ?s @ ''...'') 0 ''Neutral'')) ?s ''YES''"
    using executorNode_settles[of ?s unconfigured_store ?c 0 "[]"] by simp
  from settle_shape[where st=unconfigured_store and c="?c" and s="?s" and now=0 and d="''YES''"
      and ?h0.0="addGlobalLog [] (entry ''Executor''
          (''Processing resolution for market '' @ marketId ?s @ ''...'') 0 ''Neutral'')"]
  show ?thesis unfolding e by (auto simp add: address_bad d is_resolve_def)
qed



section \<open>Properties of the reconsideration workflow\<close>

lemma analyze_gives_array:
  "step_failed jp ga \<Longrightarrow> factAnalysis (analyzeEvidenceNode jp ga s) = JArr [JStr ''Unable to analyze evidence'']"
  by (auto simp add: step_failed_def analyzeEvidenceNode_def analyze_body_def and_then_def isl_def
      split: sum.splits)

lemma judge_returns_on_array:
  "factAnalysis s = JArr xs \<Longrightarrow> \<exists>s'. reconsiderationJudgeNode jp gj s = Inr s'"
  by (auto simp add: reconsiderationJudgeNode_def split: sum.splits prod.splits)

lemma judge_failure_upholds:
  "step_failed jp gj \<Longrightarrow> reconsiderationJudgeNode jp gj s = Inr s' \<Longrightarrow> recommendation s' = ''UPHOLD''"
  by (auto simp add: step_failed_def reconsiderationJudgeNode_def recon_judge_body_def and_then_def isl_def
      split: sum.splits json.splits prod.splits)

text \<open>
  Claim C9, as the code has it. Whenever the reconsideration workflow returns a result, its
  \<open>newOutcome\<close> is the flipped original outcome when the recommendation is OVERTURN and
  UNCHANGED otherwise; and the recommendation is UPHOLD (with outcome UNCHANGED) whenever the
  Judge step fails, that is, its generation call raises or its output does not parse. A
  failure of the Analyze step does not decide the recommendation: the workflow then still
  runs the Judge step, on the placeholder fact, and returns a result.
\<close>

theorem reconsideration_outcome:
  "(\<forall>res. processReconsideration jp ga gj req = Inr res \<longrightarrow>
       (res_recommendation res = ''OVERTURN'' \<longrightarrow>
          newOutcome res = (if originalOutcome req = ''YES'' then ''NO'' else ''YES'')) \<and>
       (res_recommendation res \<noteq> ''OVERTURN'' \<longrightarrow> newOutcome res = ''UNCHANGED'') \<and>
       (step_failed jp gj \<longrightarrow> res_recommendation res = ''UPHOLD'' \<and> newOutcome res = ''UNCHANGED'')) \<and>
   (step_failed jp ga \<longrightarrow> (\<exists>res. processReconsideration jp ga gj req = Inr res))"
proof -
  let ?s0 = "\<lparr>request = req, newEvidence = [], factAnalysis = JArr [],
                          confidenceLevel = JNum 50, recommendation = ''UPHOLD'', r_reasoning = JStr []\<rparr>"
  let ?s1 = "analyzeEvidenceNode jp ga ?s0"
  have a: "\<exists>res. processReconsideration jp ga gj req = Inr res" if "step_failed jp ga"
  proof -
    from judge_returns_on_array[OF analyze_gives_array[OF that]] obtain s' where
      "reconsiderationJudgeNode jp gj ?s1 = Inr s'" by blast
    then show ?thesis by (simp add: processReconsideration_def Let_def)
  qed
  have b: "(res_recommendation res = ''OVERTURN'' \<longrightarrow>
          newOutcome res = (if originalOutcome req = ''YES'' then ''NO'' else ''YES'')) \<and>
       (res_recommendation res \<noteq> ''OVERTURN'' \<longrightarrow> newOutcome res = ''UNCHANGED'') \<and>
       (step_failed jp gj \<longrightarrow> res_recommendation res = ''UPHOLD'' \<and> newOutcome res = ''UNCHANGED'')"
    if run: "processReconsideration jp ga gj req = Inr res" for res
  proof -
    from run obtain s' where j: "reconsiderationJudgeNode jp gj ?s1 = Inr s'"
      by (cases "reconsiderationJudgeNode jp gj ?s1") (simp_all add: processReconsideration_def Let_def)
    with run have res: "res_recommendation res = recommendation s'"
      "newOutcome res = (if recommendation s' = ''OVERTURN''
                         then (if originalOutcome req = ''YES'' then ''NO'' else ''YES'')
                         else ''UNCHANGED'')"
      by (auto simp add: processReconsideration_def Let_def)
    from judge_failure_upholds[OF _ j] res show ?thesis by auto
  qed
  from a b show ?thesis by blast
qed

lemma clean_overturn: "cleanJsonString_braces overturn_reply = overturn_reply"
  by (simp add: overturn_reply_def cleanJsonString_braces_def trim_def is_space_def lastIndexOf_def substring_def)

lemma clean_no_facts: "cleanJsonString_braces no_facts_reply = no_facts_reply"
  by (simp add: no_facts_reply_def cleanJsonString_braces_def trim_def is_space_def lastIndexOf_def substring_def)

lemma replies_differ: "no_facts_reply \<noteq> overturn_reply" "overturn_reply \<noteq> no_facts_reply"
  by (simp_all add: no_facts_reply_def overturn_reply_def)

text \<open>
  Claim C9 as stated fails. When the generation call of the Analyze step raises, and also
  when the Analyze step yields zero facts, the Judge step is still asked; if its reply
  recommends OVERTURN, the workflow returns OVERTURN with the outcome flipped from YES to NO.
\<close>

theorem reconsideration_overturn_counterexample:
  "processReconsideration (reply_parser [(overturn_reply, overturn_json)])
      (Inl ''Failed to generate content'') (Inr overturn_reply) demo_request
     = Inr \<lparr>res_marketId = ''m1'', res_originalOutcome = ''YES'', newOutcome = ''NO'',
            analysis = JStr ''Official record published'', res_recommendation = ''OVERTURN'',
            annotationNote = None\<rparr> \<and>
   processReconsideration (reply_parser [(no_facts_reply, no_facts_json), (overturn_reply, overturn_json)])
      (Inr no_facts_reply) (Inr overturn_reply) demo_request
     = Inr \<lparr>res_marketId = ''m1'', res_originalOutcome = ''YES'', newOutcome = ''NO'',
            analysis = JStr ''Official record published'', res_recommendation = ''OVERTURN'',
            annotationNote = None\<rparr>"
  by (simp add: processReconsideration_def analyzeEvidenceNode_def analyze_body_def
      reconsiderationJudgeNode_def recon_judge_body_def and_then_def reply_parser_def
      clean_overturn clean_no_facts replies_differ overturn_json_def no_facts_json_def demo_request_def
      or_default_def or_else_def toUpperCase_def upper_char_def Let_def)

text \<open>The theorem where both generation calls raise: the result is UPHOLD and UNCHANGED.\<close>

theorem reconsideration_outcome_witness:
  "step_failed (reply_parser []) (Inl ''Failed to generate content'') \<and>
   processReconsideration (reply_parser []) (Inl ''Failed to generate content'')
       (Inl ''Failed to generate content'') demo_request
     = Inr \<lparr>res_marketId = ''m1'', res_originalOutcome = ''YES'', newOutcome = ''UNCHANGED'',
            analysis = JStr ''Error in judgment process'', res_recommendation = ''UPHOLD'',
            annotationNote = None\<rparr>"
proof -
  have f: "step_failed (reply_parser []) (Inl ''Failed to generate content'')"
    by (simp add: step_failed_def)
  from reconsideration_outcome[of "reply_parser []" "Inl ''Failed to generate content''"
      "Inl ''Failed to generate content''" demo_request] f
  obtain res where run: "processReconsideration (reply_parser []) (Inl ''Failed to generate content'')
       (Inl ''Failed to generate content'') demo_request = Inr res" by blast
  have "res = \<lparr>res_marketId = ''m1'', res_originalOutcome = ''YES'', newOutcome = ''UNCHANGED'',
            analysis = JStr ''Error in judgment process'', res_recommendation = ''UPHOLD'',
            annotationNote = None\<rparr>"
    using run
    by (simp add: processReconsideration_def analyzeEvidenceNode_def reconsiderationJudgeNode_def
        and_then_def demo_request_def Let_def)
  with run f show ?thesis by simp
qed



section \<open>Properties of the resolve trigger\<close>

lemma ran_upd_subset: "m \<in> ran (f(k \<mapsto> v)) \<Longrightarrow> m = v \<or> m \<in> ran f"
  by (auto simp add: ran_def split: if_splits)

lemma admit_explicit:
  assumes "req_marketId req \<noteq> []" and "req_question req \<noteq> []"
  shows "\<exists>srv' s0. resolve_admit c now srv req = Inr (srv', s0) \<and>
           activeMarkets srv' = (activeMarkets srv)(req_marketId req \<mapsto>
               \<lparr>m_question = req_question req, tweetUrl = Some [], m_status = Researching,
                m_logs = (case activeMarkets srv (req_marketId req) of None \<Rightarrow> [] | Some m \<Rightarrow> m_logs m),
                createdAt = None,
                m_evidence = (case activeMarkets srv (req_marketId req) of None \<Rightarrow> [] | Some m \<Rightarrow> m_evidence m)\<rparr>) \<and>
           iterations s0 = 0 \<and> decision s0 = None \<and> marketId s0 = req_marketId req \<and>
           question s0 = req_question req \<and> marketPda s0 = req_marketPda req"
  using assms by (simp add: resolve_admit_def Let_def)

lemma admit_status_independent:
  "resolve_admit c now (with_status srv (req_marketId req) status') req = resolve_admit c now srv req"
  by (cases "activeMarkets srv (req_marketId req)")
     (simp_all add: with_status_def resolve_admit_def Let_def split: sum.splits)


lemma admit_never_resolved:
  assumes "never_resolved srv" and "resolve_admit c now srv req = Inr (srv', s0)"
  shows "never_resolved srv'"
proof -
  from assms(2) obtain t where "activeMarkets srv' = (activeMarkets srv)(req_marketId req \<mapsto> t)"
    and "m_status t = Researching"
    by (auto simp add: resolve_admit_def Let_def split: if_splits sum.splits prod.splits option.splits)
  with assms(1) show ?thesis
    unfolding never_resolved_def by (auto dest: ran_upd_subset)
qed

lemma resolve_handler_never_resolved:
  assumes "never_resolved srv"
  shows "never_resolved (fst (resolve_handler g st c now srv req))"
proof (cases "resolve_admit c now srv req")
  case (Inl resp)
  with assms show ?thesis by (simp add: resolve_handler_def)
next
  case (Inr p)
  obtain srv1 s0 where p: "p = (srv1, s0)" by (cases p)
  from admit_never_resolved[OF assms Inr[unfolded p]] have "never_resolved srv1" .
  then show ?thesis
    by (simp add: resolve_handler_def Inr p case_prod_unfold Let_def never_resolved_def)
qed

lemma market_created_never_resolved:
  assumes "never_resolved srv"
  shows "never_resolved (fst (market_created_handler now srv mid tweet))"
  using assms unfolding never_resolved_def market_created_handler_def
  by (auto dest!: ran_upd_subset)

lemma evidence_never_resolved:
  assumes "never_resolved srv"
  shows "never_resolved (fst (evidence_handler now srv mid ev))"
proof (cases "activeMarkets srv mid")
  case None
  with assms show ?thesis unfolding never_resolved_def evidence_handler_def
    by (auto simp add: Let_def dest!: ran_upd_subset)
next
  case (Some m)
  then have "m \<in> ran (activeMarkets srv)" by (auto simp: ran_def)
  with assms have "m_status m \<noteq> Resolved" by (simp add: never_resolved_def)
  with assms Some show ?thesis unfolding never_resolved_def evidence_handler_def
    by (auto simp add: Let_def dest!: ran_upd_subset)
qed


lemma clean_yes: "cleanJsonString yes_reply = yes_reply"
  by (simp add: yes_reply_def cleanJsonString_def trim_def is_space_def lastIndexOf_def substring_def)

lemma yes_pass:
  "decision (research_then_judge yes_generation 0 (state_with None 0 [])) = Some ''YES'' \<and>
   marketPda (research_then_judge yes_generation 0 (state_with None 0 [])) = [] \<and>
   marketId (research_then_judge yes_generation 0 (state_with None 0 [])) = ''m1''"
  by (simp add: research_then_judge_def yes_generation_def researcherNode_def judgeNode_def
      judge_body_def parse_reply_def clean_yes reply_parser_def yes_json_def and_then_def
      or_default_def toUpperCase_def upper_char_def apply_update_def no_update_def coalesce_def
      nullish_def state_with_def Let_def)

lemma handler_after_admit:
  assumes "resolve_admit c now srv req = Inr (srv1, s0)"
  shows "snd (snd (resolve_handler g st c now srv req)) =
           snd (snd (executorNode st c now (logHistory srv1) (fst (research_judge_loop g 0 s0)))) \<and>
         activeMarkets (fst (resolve_handler g st c now srv req)) = activeMarkets srv1"
  using assms by (simp add: resolve_handler_def agentApp_invoke_def case_prod_unfold Let_def)

lemma admit_trigger:
  assumes "activeMarkets srv ''m1'' = Some m" and "m_evidence m = []"
  shows "\<exists>srv1. resolve_admit c now srv trigger = Inr (srv1, state_with None 0 []) \<and>
           map_option m_status (activeMarkets srv1 ''m1'') = Some Researching \<and>
           map_option m_evidence (activeMarkets srv1 ''m1'') = Some []"
  using assms by (simp add: resolve_admit_def trigger_def state_with_def Let_def)

lemma yes_run_resolves:
  "length (filter is_resolve (snd (snd (executorNode st (ledger rr stakes failing) now h
      (fst (research_judge_loop yes_generation 0 (state_with None 0 []))))))) = 1"
proof -
  let ?s2 = "research_then_judge yes_generation 0 (state_with None 0 [])"
  have stop: "shouldContinue ?s2 = executor" using yes_pass by (simp add: shouldContinue_def)
  have loop: "research_judge_loop yes_generation 0 (state_with None 0 []) = (?s2, 1)"
    by (rule loop_stop[OF stop])
  have addr: "\<not> isl (market_address (ledger rr stakes failing) ?s2)"
    using yes_pass by (simp add: market_address_def ledger_def derive_pda_def)
  show ?thesis
    using executorNode_resolve_count[OF _ addr] yes_pass by (simp add: loop)
qed

text \<open>
  Claim C2, as the code has it. The handler of \<^verbatim>\<open>POST /resolve\<close> never reads the tracked
  status. A trigger that names a market id and carries a question is always run: the handler
  sets the tracked status to \<open>Researching\<close> and starts the workflow at iteration 0, and it
  does exactly the same whatever status the market had before. No handler writes the status
  \<open>Resolved\<close>: if no tracked market has it, none has it after a resolve trigger, a
  market-created notice or an evidence submission.
\<close>

theorem resolve_trigger_ungated:
  assumes "req_marketId req \<noteq> []" and "req_question req \<noteq> []"
  shows "(\<exists>srv' s0. resolve_admit c now srv req = Inr (srv', s0) \<and>
            map_option m_status (activeMarkets srv' (req_marketId req)) = Some Researching \<and>
            iterations s0 = 0 \<and> decision s0 = None \<and> marketId s0 = req_marketId req) \<and>
     (\<forall>status'. resolve_admit c now (with_status srv (req_marketId req) status') req
                  = resolve_admit c now srv req) \<and>
     (never_resolved srv \<longrightarrow>
        never_resolved (fst (resolve_handler g st c now srv req)) \<and>
        never_resolved (fst (market_created_handler now srv mid tweet)) \<and>
        never_resolved (fst (evidence_handler now srv mid ev)))"
proof -
  from admit_explicit[OF assms, of c now srv] obtain srv' s0 where
    "resolve_admit c now srv req = Inr (srv', s0)"
    "activeMarkets srv' = (activeMarkets srv)(req_marketId req \<mapsto>
               \<lparr>m_question = req_question req, tweetUrl = Some [], m_status = Researching,
                m_logs = (case activeMarkets srv (req_marketId req) of None \<Rightarrow> [] | Some m \<Rightarrow> m_logs m),
                createdAt = None,
                m_evidence = (case activeMarkets srv (req_marketId req) of None \<Rightarrow> [] | Some m \<Rightarrow> m_evidence m)\<rparr>)"
    "iterations s0 = 0" "decision s0 = None" "marketId s0 = req_marketId req"
    by blast
  then have "\<exists>srv' s0. resolve_admit c now srv req = Inr (srv', s0) \<and>
            map_option m_status (activeMarkets srv' (req_marketId req)) = Some Researching \<and>
            iterations s0 = 0 \<and> decision s0 = None \<and> marketId s0 = req_marketId req"
    by simp
  with admit_status_independent[of c now srv req] resolve_handler_never_resolved[of srv g st c now req]
    market_created_never_resolved[of srv now mid tweet] evidence_never_resolved[of srv now mid ev]
  show ?thesis by blast
qed

text \<open>The theorem on a server that tracks market \<open>m1\<close> as being researched.\<close>

theorem resolve_trigger_ungated_witness:
  "req_marketId trigger \<noteq> [] \<and> req_question trigger \<noteq> [] \<and>
   resolve_admit (ledger (Inr ''sig'') (Inr []) []) 0 (with_status (tracking Researching) ''m1'' Resolved) trigger
     = resolve_admit (ledger (Inr ''sig'') (Inr []) []) 0 (tracking Researching) trigger \<and>
   never_resolved (tracking Researching) \<and>
   never_resolved (fst (resolve_handler yes_generation unconfigured_store
      (ledger (Inr ''sig'') (Inr []) []) 0 (tracking Researching) trigger))"
proof -
  have h1: "req_marketId trigger \<noteq> []" and h2: "req_question trigger \<noteq> []"
    by (simp_all add: trigger_def)
  have h3: "never_resolved (tracking Researching)"
    by (simp add: never_resolved_def tracking_def)
  have m: "req_marketId trigger = ''m1''" by (simp add: trigger_def)
  from resolve_trigger_ungated[OF h1 h2, where c = "ledger (Inr ''sig'') (Inr []) []" and now = 0
      and srv = "tracking Researching" and g = yes_generation and st = unconfigured_store
      and mid = "''m1''" and tweet = "[]" and ev = "\<lparr>cid = ''x'', ev_description = [], submitter = [], filename = [], ev_timestamp = 0\<rparr>"]
    h1 h2 h3 m
  show ?thesis by auto
qed


text \<open>
  Claim C2 as stated fails. Market \<open>m1\<close> is tracked as open and the Judge answers YES. A
  first trigger is run and the executor makes its resolve call; the tracked status is then
  \<open>Researching\<close>. A second trigger for the same market, received in that state, is run as
  well and makes a second resolve call: it is neither rejected nor queued.
\<close>

theorem resolve_trigger_counterexample:
  "map_option m_status (activeMarkets (tracking Open) ''m1'') = Some Open \<and>
   length (filter is_resolve (snd (snd (resolve_handler yes_generation unconfigured_store
      (ledger (Inr ''sig'') (Inr []) []) 0 (tracking Open) trigger)))) = 1 \<and>
   map_option m_status (activeMarkets (fst (resolve_handler yes_generation unconfigured_store
      (ledger (Inr ''sig'') (Inr []) []) 0 (tracking Open) trigger)) ''m1'') = Some Researching \<and>
   length (filter is_resolve (snd (snd (resolve_handler yes_generation unconfigured_store
      (ledger (Inr ''sig'') (Inr []) []) 0
      (fst (resolve_handler yes_generation unconfigured_store
         (ledger (Inr ''sig'') (Inr []) []) 0 (tracking Open) trigger)) trigger)))) = 1"
proof -
  let ?c = "ledger (Inr ''sig'') (Inr []) []"
  let ?first = "resolve_handler yes_generation unconfigured_store ?c 0 (tracking Open) trigger"
  have t0: "activeMarkets (tracking Open) ''m1'' = Some \<lparr>m_question = ''Did event X occur?'',
      tweetUrl = Some [], m_status = Open, m_logs = [], createdAt = Some 0, m_evidence = []\<rparr>"
    by (simp add: tracking_def)
  from admit_trigger[OF t0, of ?c 0] obtain srv1 where
    a1: "resolve_admit ?c 0 (tracking Open) trigger = Inr (srv1, state_with None 0 [])"
    and s1: "map_option m_status (activeMarkets srv1 ''m1'') = Some Researching"
    and e1: "map_option m_evidence (activeMarkets srv1 ''m1'') = Some []"
    by auto
  note f1 = handler_after_admit[OF a1, of yes_generation unconfigured_store]
  have c1: "length (filter is_resolve (snd (snd ?first))) = 1"
    using f1 yes_run_resolves by simp
  have st1: "map_option m_status (activeMarkets (fst ?first) ''m1'') = Some Researching"
    using f1 s1 by simp
  from e1 f1 obtain m where m: "activeMarkets (fst ?first) ''m1'' = Some m" "m_evidence m = []"
    by auto
  from admit_trigger[OF m, of ?c 0] obtain srv2 where
    a2: "resolve_admit ?c 0 (fst ?first) trigger = Inr (srv2, state_with None 0 [])"
    by auto
  have c2: "length (filter is_resolve (snd (snd (resolve_handler yes_generation unconfigured_store
      ?c 0 (fst ?first) trigger)))) = 1"
    using handler_after_admit[OF a2, of yes_generation unconfigured_store] yes_run_resolves by simp
  from t0 c1 st1 c2 show ?thesis by simp
qed


end
